theory Spec2Isabelle
  imports Main "HOL-Library.Word"
begin

unbundle bit_operations_syntax

section \<open>Bytes and the byte-order helpers of package core\<close>

type_synonym byte = "8 word"
type_synonym uint16 = "16 word"
type_synonym uint32 = "32 word"

text \<open>
  Modelled from the spec: the writers of package \<^verbatim>\<open>core\<close> (\<^verbatim>\<open>core.WriteUInt16BE\<close>,
  \<^verbatim>\<open>core.WriteUInt16LE\<close>, \<^verbatim>\<open>core.WriteUInt32LE\<close>) are called by the sources but are not
  among them. They append the value in the byte order their name and the spec's wire
  layout give ("big-endian 16-bit", "2-byte little-endian length", "4-byte little-endian
  bitmask"). \<^verbatim>\<open>core.WriteUInt8 b\<close> appends the single byte \<open>b\<close> and is written \<open>[b]\<close>.
\<close>

definition WriteUInt16BE :: "uint16 \<Rightarrow> byte list" where
  "WriteUInt16BE v = [ucast (drop_bit 8 v), ucast v]"

definition WriteUInt16LE :: "uint16 \<Rightarrow> byte list" where
  "WriteUInt16LE v = [ucast v, ucast (drop_bit 8 v)]"

definition WriteUInt32LE :: "uint32 \<Rightarrow> byte list" where
  "WriteUInt32LE v =
     [ucast v, ucast (drop_bit 8 v), ucast (drop_bit 16 v), ucast (drop_bit 24 v)]"

text \<open>The values two or four bytes stand for, first byte of the wire first.\<close>

definition Uint16BE :: "byte \<Rightarrow> byte \<Rightarrow> uint16" where
  "Uint16BE b0 b1 = push_bit 8 (ucast b0) OR ucast b1"

definition Uint16LE :: "byte \<Rightarrow> byte \<Rightarrow> uint16" where
  "Uint16LE b0 b1 = ucast b0 OR push_bit 8 (ucast b1)"

definition Uint32LE :: "byte \<Rightarrow> byte \<Rightarrow> byte \<Rightarrow> byte \<Rightarrow> uint32" where
  "Uint32LE b0 b1 b2 b3 =
     ucast b0 OR push_bit 8 (ucast b1) OR push_bit 16 (ucast b2) OR push_bit 24 (ucast b3)"

text \<open>
  Modelled from the spec: the readers of package \<^verbatim>\<open>core\<close> and the field readers of
  the \<^verbatim>\<open>struc\<close> library are not among the source files either. A reader is the list of
  bytes still unread; a read returns the value and the rest, or \<open>None\<close> when the reader
  runs out (the \<^verbatim>\<open>err\<close> result).
\<close>

definition ReadUInt8 :: "byte list \<Rightarrow> (byte \<times> byte list) option" where
  "ReadUInt8 r = (case r of b # r' \<Rightarrow> Some (b, r') | _ \<Rightarrow> None)"

definition ReadUint16BE :: "byte list \<Rightarrow> (uint16 \<times> byte list) option" where
  "ReadUint16BE r = (case r of b0 # b1 # r' \<Rightarrow> Some (Uint16BE b0 b1, r') | _ \<Rightarrow> None)"

definition ReadUint16LE :: "byte list \<Rightarrow> (uint16 \<times> byte list) option" where
  "ReadUint16LE r = (case r of b0 # b1 # r' \<Rightarrow> Some (Uint16LE b0 b1, r') | _ \<Rightarrow> None)"

definition ReadUint32LE :: "byte list \<Rightarrow> (uint32 \<times> byte list) option" where
  "ReadUint32LE r =
     (case r of b0 # b1 # b2 # b3 # r' \<Rightarrow> Some (Uint32LE b0 b1 b2 b3, r') | _ \<Rightarrow> None)"


section \<open>x224: constants and wire records\<close>

definition TPDU_CONNECTION_REQUEST :: byte where "TPDU_CONNECTION_REQUEST = 0xE0"
definition TPDU_CONNECTION_CONFIRM :: byte where "TPDU_CONNECTION_CONFIRM = 0xD0"
definition TPDU_DISCONNECT_REQUEST :: byte where "TPDU_DISCONNECT_REQUEST = 0x80"
definition TPDU_DATA :: byte where "TPDU_DATA = 0xF0"
definition TPDU_ERROR :: byte where "TPDU_ERROR = 0x70"

definition TYPE_RDP_NEG_REQ :: byte where "TYPE_RDP_NEG_REQ = 0x01"
definition TYPE_RDP_NEG_RSP :: byte where "TYPE_RDP_NEG_RSP = 0x02"
definition TYPE_RDP_NEG_FAILURE :: byte where "TYPE_RDP_NEG_FAILURE = 0x03"

definition PROTOCOL_RDP :: uint32 where "PROTOCOL_RDP = 0x00000000"
definition PROTOCOL_SSL :: uint32 where "PROTOCOL_SSL = 0x00000001"
definition PROTOCOL_HYBRID :: uint32 where "PROTOCOL_HYBRID = 0x00000002"
definition PROTOCOL_HYBRID_EX :: uint32 where "PROTOCOL_HYBRID_EX = 0x00000008"

record Negotiation =
  Type :: byte
  Flag :: byte
  Length :: uint16
  Result :: uint32

definition NewNegotiation :: Negotiation where
  "NewNegotiation = \<lparr>Type = 0, Flag = 0, Length = 0x0008, Result = PROTOCOL_RDP\<rparr>"

text \<open>
  \<^verbatim>\<open>struc.Pack\<close> and \<^verbatim>\<open>struc.Unpack\<close> on a \<^verbatim>\<open>Negotiation\<close> follow the struct tags of the
  source: \<^verbatim>\<open>Type\<close> and \<^verbatim>\<open>Flag\<close> one byte each, \<^verbatim>\<open>Length\<close> two bytes and \<^verbatim>\<open>Result\<close> four
  bytes, both tagged \<^verbatim>\<open>little\<close>.
\<close>

definition Pack_Negotiation :: "Negotiation \<Rightarrow> byte list" where
  "Pack_Negotiation n =
     [Type n] @ [Flag n] @ WriteUInt16LE (Length n) @ WriteUInt32LE (Result n)"

definition Unpack_Negotiation :: "byte list \<Rightarrow> (Negotiation \<times> byte list) option" where
  "Unpack_Negotiation r =
     Option.bind (ReadUInt8 r) (\<lambda>(t, r1).
     Option.bind (ReadUInt8 r1) (\<lambda>(f, r2).
     Option.bind (ReadUint16LE r2) (\<lambda>(l, r3).
     Option.bind (ReadUint32LE r3) (\<lambda>(v, r4).
       Some (\<lparr>Type = t, Flag = f, Length = l, Result = v\<rparr>, r4)))))"

record ClientConnectionRequestPDU =
  Len :: byte
  Code :: byte
  Padding1 :: uint16
  Padding2 :: uint16
  Padding3 :: byte
  Cookie :: "byte list"
  ProtocolNeg :: Negotiation

definition Serialize :: "ClientConnectionRequestPDU \<Rightarrow> byte list" where
  "Serialize x =
     [Len x] @ [Code x] @ WriteUInt16BE (Padding1 x) @ WriteUInt16BE (Padding2 x) @
     [Padding3 x] @ Cookie x @
     (if Len x > 14 then WriteUInt16LE 0x0A0D else []) @
     Pack_Negotiation (ProtocolNeg x)"

text \<open>
  The constructor serializes the PDU once, with \<^verbatim>\<open>Len\<close> still 0, to compute \<^verbatim>\<open>Len\<close>;
  \<^verbatim>\<open>uint8(...)\<close> keeps the low eight bits.
\<close>

definition NewClientConnectionRequestPDU :: "byte list \<Rightarrow> ClientConnectionRequestPDU" where
  "NewClientConnectionRequestPDU coockie =
     (let x = \<lparr>Len = 0, Code = TPDU_CONNECTION_REQUEST, Padding1 = 0, Padding2 = 0,
               Padding3 = 0, Cookie = coockie, ProtocolNeg = NewNegotiation\<rparr>
      in x\<lparr>Len := of_int (int (length (Serialize x)) - 1)\<rparr>)"

text \<open>
  The confirm has the fields of the request without the cookie (the suffix keeps the
  field names apart). Its fields carry no struct tag: \<^verbatim>\<open>struc\<close> reads them big-endian,
  then the nested \<^verbatim>\<open>Negotiation\<close>; a reader that runs out is the \<^verbatim>\<open>err\<close> of
  \<^verbatim>\<open>struc.Unpack\<close>.
\<close>

record ServerConnectionConfirm =
  Len_cc :: byte
  Code_cc :: byte
  Padding1_cc :: uint16
  Padding2_cc :: uint16
  Padding3_cc :: byte
  ProtocolNeg_cc :: Negotiation

definition Unpack_ServerConnectionConfirm :: "byte list \<Rightarrow> ServerConnectionConfirm option" where
  "Unpack_ServerConnectionConfirm s =
     Option.bind (ReadUInt8 s) (\<lambda>(l, r1).
     Option.bind (ReadUInt8 r1) (\<lambda>(c, r2).
     Option.bind (ReadUint16BE r2) (\<lambda>(p1, r3).
     Option.bind (ReadUint16BE r3) (\<lambda>(p2, r4).
     Option.bind (ReadUInt8 r4) (\<lambda>(p3, r5).
     Option.bind (Unpack_Negotiation r5) (\<lambda>(n, r6).
       Some \<lparr>Len_cc = l, Code_cc = c, Padding1_cc = p1, Padding2_cc = p2,
             Padding3_cc = p3, ProtocolNeg_cc = n\<rparr>))))))"


record DataHeader =
  Header :: byte
  MessageType :: byte
  Separator :: byte

definition NewDataHeader :: DataHeader where
  "NewDataHeader = \<lparr>Header = 2, MessageType = TPDU_DATA, Separator = 0x80\<rparr>"


section \<open>Effects, failures and the world outside the automaton\<close>

text \<open>
  A layer acts on its lower transport (writes, listeners it registers, security
  upgrades of the socket), on the fast-path listener and on its own embedded emitter. A
  handler returns the list of these actions in the order the source performs them:
  \<open>ConnWrite\<close> is \<^verbatim>\<open>t.Conn.Write\<close>, \<open>TransportWrite\<close>, \<open>TransportOn\<close> and \<open>TransportOnce\<close>
  are the calls on the \<^verbatim>\<open>transport\<close> field, \<open>RecvFastPath\<close> is the call of
  \<^verbatim>\<open>t.fastPathListener.RecvFastPath\<close>, and \<open>Emit\<close> is \<^verbatim>\<open>Emit\<close> on the layer itself. Calls of
  \<^verbatim>\<open>glog\<close> are diagnostics and are left out.
\<close>

datatype listener =
    X224_forwardClose | X224_forwardError | X224_recvConnectionConfirm | X224_recvData
  | Sec_recvLicenceInfo | Sec_recvData

datatype arg =
    ArgProtocol uint32
  | ArgBytes "byte list"
  | ArgError string
  | ArgCoreData uint32
  | ArgUint16 uint16

datatype effect =
    ConnWrite "byte list"
  | TransportWrite "byte list"
  | TransportOn string listener
  | TransportOnce string listener
  | StartTLS
  | StartNLA
  | RecvFastPath byte "byte list"
  | Emit string "arg list"

text \<open>A run-time panic of the Go code ends the handler; it is a value of the model.\<close>

datatype panic = NilDereference | TypeAssertionFailed | SliceBoundsOutOfRange
  | IndexOutOfRange | NegativeLength

text \<open>
  The lower transport of the automaton is an interface value: nil, the \<^verbatim>\<open>*tpkt.TPKT\<close>
  the session facade passes, or some other implementation (on which the type assertion
  \<^verbatim>\<open>x.transport.(*tpkt.TPKT)\<close> panics).
\<close>

datatype Transport = NilTransport | TpktTransport | OtherTransport

text \<open>
  What the calls into the lower transport return is decided outside the automaton:
  \<open>None\<close> is a nil error.
\<close>

record Env =
  Write_err :: "string option"
  StartTLS_err :: "string option"
  StartNLA_err :: "string option"

text \<open>
  The process-wide variable \<^verbatim>\<open>FindSuccess\<close> and the result file of \<^verbatim>\<open>savefile\<close>;
  \<open>None\<close> is a file that \<^verbatim>\<open>os.OpenFile\<close> with \<^verbatim>\<open>O_WRONLY\<close> cannot open (it is not created).
\<close>

record World =
  FindSuccess :: string
  resultFile :: "string option"


section \<open>x224: the connection automaton\<close>

record X224 =
  transport :: Transport
  requestedProtocol :: uint32
  selectedProtocol :: uint32
  dataHeader :: DataHeader
  host :: string

definition New :: "Transport \<Rightarrow> panic + (X224 \<times> effect list)" where
  "New t =
     (let x = \<lparr>transport = t, requestedProtocol = PROTOCOL_SSL OR PROTOCOL_HYBRID,
                selectedProtocol = PROTOCOL_SSL, dataHeader = NewDataHeader, host = ''0''\<rparr>
      in if t = NilTransport then Inl NilDereference
         else Inr (x, [TransportOn ''close'' X224_forwardClose,
                       TransportOn ''error'' X224_forwardError]))"

definition Write_x224 :: "X224 \<Rightarrow> byte list \<Rightarrow> effect list" where
  "Write_x224 x b =
     [TransportWrite ([Header (dataHeader x), MessageType (dataHeader x),
                       Separator (dataHeader x)] @ b)]"

definition SetRequestedProtocol :: "uint32 \<Rightarrow> X224 \<Rightarrow> X224" where
  "SetRequestedProtocol p x = x\<lparr>requestedProtocol := p\<rparr>"

text \<open>The request \<^verbatim>\<open>Connect\<close> builds: an empty cookie, type and result set afterwards.\<close>

definition connect_message :: "X224 \<Rightarrow> ClientConnectionRequestPDU" where
  "connect_message x =
     (let message = NewClientConnectionRequestPDU []
      in message\<lparr>ProtocolNeg :=
           (ProtocolNeg message)\<lparr>Type := TYPE_RDP_NEG_REQ, Result := requestedProtocol x\<rparr>\<rparr>)"

definition Connect :: "Env \<Rightarrow> string \<Rightarrow> X224 \<Rightarrow> X224 \<times> effect list \<times> string option" where
  "Connect env h x0 =
     (let x = x0\<lparr>host := h\<rparr>
      in if transport x = NilTransport then (x, [], Some ''no transport'')
         else (x, [TransportWrite (Serialize (connect_message x)),
                   TransportOnce ''data'' X224_recvConnectionConfirm], Write_err env))"

text \<open>
  \<^verbatim>\<open>savefile\<close> opens the result file write-only; when that fails nothing is written,
  otherwise the string and a line feed are written at the end of the file.
\<close>

definition savefile :: "string \<Rightarrow> World \<Rightarrow> World" where
  "savefile str w =
     (case resultFile w of
        None \<Rightarrow> w
      | Some content \<Rightarrow> w\<lparr>resultFile := Some (content @ str @ [CHR 0x0A])\<rparr>)"

definition recvConnectionConfirm ::
  "Env \<Rightarrow> X224 \<Rightarrow> byte list \<Rightarrow> World \<Rightarrow> panic + (X224 \<times> World \<times> effect list)" where
  "recvConnectionConfirm env x s w =
     (case Unpack_ServerConnectionConfirm s of
        None \<Rightarrow> Inr (x, w, [])
      | Some message \<Rightarrow>
          if Type (ProtocolNeg_cc message) = TYPE_RDP_NEG_FAILURE
          then Inr (x, (savefile (host x) w)\<lparr>FindSuccess := host x\<rparr>, [])
          else if Type (ProtocolNeg_cc message) = TYPE_RDP_NEG_RSP
          then Inr (x, (savefile (host x) w)\<lparr>FindSuccess := host x\<rparr>, [])
          else if selectedProtocol x = PROTOCOL_HYBRID_EX then Inr (x, w, [])
          else if transport x = NilTransport then Inl NilDereference
          else if selectedProtocol x = PROTOCOL_RDP
          then Inr (x, w, [TransportOn ''data'' X224_recvData])
          else if selectedProtocol x = PROTOCOL_SSL
          then (if transport x \<noteq> TpktTransport then Inl TypeAssertionFailed
                else case StartTLS_err env of
                       Some err \<Rightarrow> Inr (x, w, [TransportOn ''data'' X224_recvData, StartTLS])
                     | None \<Rightarrow>
                         Inr (x, w, [TransportOn ''data'' X224_recvData, StartTLS,
                                     Emit ''connect'' [ArgProtocol (selectedProtocol x)]]))
          else if selectedProtocol x = PROTOCOL_HYBRID
          then (if transport x \<noteq> TpktTransport then Inl TypeAssertionFailed
                else case StartNLA_err env of
                       Some err \<Rightarrow> Inr (x, w, [TransportOn ''data'' X224_recvData, StartNLA])
                     | None \<Rightarrow>
                         Inr (x, w, [TransportOn ''data'' X224_recvData, StartNLA,
                                     Emit ''connect'' [ArgProtocol (selectedProtocol x)]]))
          else Inr (x, w, [TransportOn ''data'' X224_recvData]))"

definition recvData :: "X224 \<Rightarrow> byte list \<Rightarrow> panic + effect list" where
  "recvData x s =
     (if length s < 3 then Inl SliceBoundsOutOfRange
      else Inr [Emit ''data'' [ArgBytes (drop 3 s)]])"



section \<open>tpkt: framing and the frame reader\<close>

definition FASTPATH_ACTION_FASTPATH :: byte where "FASTPATH_ACTION_FASTPATH = 0x0"
definition FASTPATH_ACTION_X224 :: byte where "FASTPATH_ACTION_X224 = 0x3"

text \<open>
  The fields of \<^verbatim>\<open>TPKT\<close> the reader uses: the security flags of the current fast-path
  frame, and whether a fast-path listener is installed (a nil listener panics when it is
  called).
\<close>

record TPKT =
  secFlag :: byte
  fastPathListener :: bool

text \<open>The buffers \<^verbatim>\<open>Write\<close> and \<^verbatim>\<open>SendFastPath\<close> build, and the write on the socket.\<close>

definition Write_buff :: "byte list \<Rightarrow> byte list" where
  "Write_buff data =
     [FASTPATH_ACTION_X224] @ [0] @ WriteUInt16BE (of_nat (length data + 4)) @ data"

definition Write_tpkt :: "TPKT \<Rightarrow> byte list \<Rightarrow> effect list" where
  "Write_tpkt t data = [ConnWrite (Write_buff data)]"

definition SendFastPath_buff :: "byte \<Rightarrow> byte list \<Rightarrow> byte list" where
  "SendFastPath_buff secFlag' data =
     [FASTPATH_ACTION_FASTPATH OR push_bit 6 (secFlag' AND 0x3)] @
     WriteUInt16BE (of_nat (length data + 3) OR 0x8000) @ data"

definition SendFastPath :: "TPKT \<Rightarrow> byte \<Rightarrow> byte list \<Rightarrow> effect list" where
  "SendFastPath t secFlag' data = [ConnWrite (SendFastPath_buff secFlag' data)]"

text \<open>
  \<^verbatim>\<open>core.StartReadBytes(n, t.Conn, cb)\<close> asks the socket for exactly \<open>n\<close> bytes and calls
  \<open>cb\<close> with them. The callbacks are the methods below; the closure of \<^verbatim>\<open>recvHeader\<close>
  carries the first length byte.
\<close>

datatype callback =
    CB_recvHeader
  | CB_recvExtendedHeader
  | CB_recvData
  | CB_recvExtendedFastPathHeader int
  | CB_recvFastPath

datatype read_request = StartReadBytes int callback

text \<open>
  A callback gets the buffer and the error of the read (\<open>None\<close> is nil). It returns the new
  state, what it emitted, and the read it armed, if any; or it panics.
\<close>

type_synonym step = "panic + (TPKT \<times> effect list \<times> read_request option)"

definition recvHeader :: "TPKT \<Rightarrow> byte list \<Rightarrow> string option \<Rightarrow> step" where
  "recvHeader t s err =
     (case err of
        Some e \<Rightarrow> Inr (t, [Emit ''error'' [ArgError e]], None)
      | None \<Rightarrow>
         (case s of
            [] \<Rightarrow> Inl IndexOutOfRange
          | version # s' \<Rightarrow>
              if version = FASTPATH_ACTION_X224
              then Inr (t, [], Some (StartReadBytes 2 CB_recvExtendedHeader))
              else (case s' of
                      [] \<Rightarrow> Inl IndexOutOfRange
                    | l # s'' \<Rightarrow>
                        let t' = t\<lparr>secFlag := drop_bit 6 version AND 0x3\<rparr>;
                            length' = uint l
                        in if length' AND 0x80 \<noteq> 0
                           then Inr (t', [], Some (StartReadBytes 1
                                  (CB_recvExtendedFastPathHeader length')))
                           else Inr (t', [], None))))"

text \<open>
  The error of \<^verbatim>\<open>core.ReadUint16BE\<close> is dropped by the source; the reader then holds the
  two bytes just read, so the value 0 for a short reader is never used by the frame reader.
  \<^verbatim>\<open>size-4\<close> is computed on \<^verbatim>\<open>uint16\<close> and wraps.
\<close>

definition recvExtendedHeader :: "TPKT \<Rightarrow> byte list \<Rightarrow> string option \<Rightarrow> step" where
  "recvExtendedHeader t s err =
     (case err of
        Some e \<Rightarrow> Inr (t, [], None)
      | None \<Rightarrow>
          let size' = (case ReadUint16BE s of Some (v, r) \<Rightarrow> v | None \<Rightarrow> 0)
          in Inr (t, [], Some (StartReadBytes (uint (size' - 4)) CB_recvData)))"

definition recvData_tpkt :: "TPKT \<Rightarrow> byte list \<Rightarrow> string option \<Rightarrow> step" where
  "recvData_tpkt t s err =
     (case err of
        Some e \<Rightarrow> Inr (t, [], None)
      | None \<Rightarrow> Inr (t, [Emit ''data'' [ArgBytes s]], Some (StartReadBytes 2 CB_recvHeader)))"

text \<open>
  \<^verbatim>\<open>recvExtendedFastPathHeader\<close> overwrites the error it is given with the one of
  \<^verbatim>\<open>core.ReadUInt8\<close>; the arithmetic is on \<^verbatim>\<open>int\<close>.
\<close>

definition recvExtendedFastPathHeader ::
  "TPKT \<Rightarrow> byte list \<Rightarrow> int \<Rightarrow> string option \<Rightarrow> step" where
  "recvExtendedFastPathHeader t s length' err =
     (case ReadUInt8 s of
        None \<Rightarrow> Inr (t, [], None)
      | Some (rightPart, r) \<Rightarrow>
          let leftPart = length' AND NOT 0x80;
              packetSize = push_bit 8 leftPart + uint rightPart
          in Inr (t, [], Some (StartReadBytes (packetSize - 3) CB_recvFastPath)))"

definition recvFastPath :: "TPKT \<Rightarrow> byte list \<Rightarrow> string option \<Rightarrow> step" where
  "recvFastPath t s err =
     (case err of
        Some e \<Rightarrow> Inr (t, [], None)
      | None \<Rightarrow>
          if \<not> fastPathListener t then Inl NilDereference
          else Inr (t, [RecvFastPath (secFlag t) s], Some (StartReadBytes 2 CB_recvHeader)))"

fun invoke :: "callback \<Rightarrow> TPKT \<Rightarrow> byte list \<Rightarrow> string option \<Rightarrow> step" where
  "invoke CB_recvHeader t s err = recvHeader t s err"
| "invoke CB_recvExtendedHeader t s err = recvExtendedHeader t s err"
| "invoke CB_recvData t s err = recvData_tpkt t s err"
| "invoke (CB_recvExtendedFastPathHeader length') t s err =
     recvExtendedFastPathHeader t s length' err"
| "invoke CB_recvFastPath t s err = recvFastPath t s err"

text \<open>
  Modelled from the spec: \<^verbatim>\<open>core.StartReadBytes\<close> and the socket are not among the source
  files. Following the spec's Frame Reader, a read of \<open>n\<close> bytes delivers exactly \<open>n\<close>
  bytes to the callback, or a stream error, and only a callback arms the next read. The
  socket is the list \<open>bs\<close> of bytes it still delivers and \<open>fail\<close>, the error that follows
  them (\<open>None\<close>: nothing follows yet, and a read that needs more stays pending). A buffer of
  negative length cannot be made (\<^verbatim>\<open>make\<close> panics); on an error the callback gets the
  buffer of length \<open>n\<close> holding what was read. The reader returns the final state, all that
  was emitted, how the loop ended and the bytes left unread.
\<close>

datatype status = Waiting read_request | Idle | Panicked panic

fun rank :: "read_request option \<Rightarrow> nat" where
  "rank None = 0"
| "rank (Some (StartReadBytes n CB_recvHeader)) = 1"
| "rank (Some (StartReadBytes n CB_recvData)) = 2"
| "rank (Some (StartReadBytes n CB_recvFastPath)) = 2"
| "rank (Some (StartReadBytes n CB_recvExtendedHeader)) = 3"
| "rank (Some (StartReadBytes n (CB_recvExtendedFastPathHeader l))) = 3"

function (sequential) reader ::
  "TPKT \<Rightarrow> read_request option \<Rightarrow> byte list \<Rightarrow> string option
     \<Rightarrow> TPKT \<times> effect list \<times> status \<times> byte list" where
  "reader t None bs fail = (t, [], Idle, bs)"
| "reader t (Some (StartReadBytes n cb)) bs fail =
     (if n < 0 then (t, [], Panicked NegativeLength, bs)
      else if n \<le> int (length bs)
      then (case invoke cb t (take (nat n) bs) None of
              Inl p \<Rightarrow> (t, [], Panicked p, drop (nat n) bs)
            | Inr (t', es, nxt) \<Rightarrow>
                (case reader t' nxt (drop (nat n) bs) fail of
                   (t'', es', st, rest) \<Rightarrow> (t'', es @ es', st, rest)))
      else (case fail of
              None \<Rightarrow> (t, [], Waiting (StartReadBytes n cb), bs)
            | Some e \<Rightarrow>
                (case invoke cb t (bs @ replicate (nat n - length bs) 0) (Some e) of
                   Inl p \<Rightarrow> (t, [], Panicked p, [])
                 | Inr (t', es, nxt) \<Rightarrow>
                     (case reader t' nxt [] fail of
                        (t'', es', st, rest) \<Rightarrow> (t'', es @ es', st, rest)))))"
  by pat_completeness auto

lemma rank_le3: "rank r \<le> 3"
  by (cases r rule: rank.cases) auto

lemma invoke_no_progress:
  assumes "invoke cb t [] None = Inr (t', es, nxt)"
  shows "rank nxt < rank (Some (StartReadBytes n cb))"
  using assms
  by (cases cb) (auto simp add: recvHeader_def recvExtendedHeader_def recvData_tpkt_def
      recvExtendedFastPathHeader_def recvFastPath_def ReadUInt8_def ReadUint16BE_def Let_def
      split: if_splits)

lemma invoke_error:
  assumes "invoke cb t s (Some e) = Inr (t', es, nxt)"
  shows "rank nxt < rank (Some (StartReadBytes n cb))"
  using assms
  by (cases cb) (auto simp add: recvHeader_def recvExtendedHeader_def recvData_tpkt_def
      recvExtendedFastPathHeader_def recvFastPath_def ReadUInt8_def Let_def
      split: if_splits option.splits)

termination reader
  apply (relation "measure (\<lambda>(t, r, bs, fail). 4 * length bs + rank r)")
    apply simp
  subgoal for t n cb bs fail x2 t' y es nxt
    apply (cases "n = 0")
    using invoke_no_progress [of cb t t' es nxt n] apply simp
    using rank_le3 [of nxt] apply simp
    done
  subgoal for t n cb bs fail e x2 t' y es nxt
    using invoke_error [of cb t "bs @ replicate (nat n - length bs) 0" e t' es nxt n]
    apply auto
    done
  done

declare reader.simps(2) [simp del]

text \<open>\<^verbatim>\<open>New\<close> starts the loop: \<^verbatim>\<open>core.StartReadBytes(2, s, t.recvHeader)\<close>.\<close>

definition start :: "read_request option" where
  "start = Some (StartReadBytes 2 CB_recvHeader)"

definition New_tpkt :: "TPKT \<times> read_request option" where
  "New_tpkt = (\<lparr>secFlag = 0, fastPathListener = False\<rparr>, start)"

definition SetFastPathListener :: "TPKT \<Rightarrow> TPKT" where
  "SetFastPathListener t = t\<lparr>fastPathListener := True\<rparr>"


section \<open>sec: the licence exchange\<close>

definition INFO_PKT :: uint16 where "INFO_PKT = 0x0040"
definition LICENSE_PKT :: uint16 where "LICENSE_PKT = 0x0080"

record SecurityHeader =
  securityFlag :: uint16
  securityFlagHi :: uint16

text \<open>
  \<^verbatim>\<open>readSecurityHeader\<close> drops the errors of the two reads; a read that fails is taken to
  yield 0 and to leave the reader empty.
\<close>

definition readSecurityHeader :: "byte list \<Rightarrow> SecurityHeader \<times> byte list" where
  "readSecurityHeader r =
     (let (f, r1) = (case ReadUint16LE r of Some (v, r') \<Rightarrow> (v, r') | None \<Rightarrow> (0, []));
          (fh, r2) = (case ReadUint16LE r1 of Some (v, r') \<Rightarrow> (v, r') | None \<Rightarrow> (0, []))
      in (\<lparr>securityFlag = f, securityFlagHi = fh\<rparr>, r2))"

text \<open>
  Modelled from the spec: package \<^verbatim>\<open>lic\<close> (the licence packet, its tags, its error message
  and \<^verbatim>\<open>lic.ReadLicensePacket\<close>) is not among the source files. The spec's License Packet
  is a tagged variant over NewLicense, ErrorAlert with an error code and a state
  transition, LicenseRequest, PlatformChallenge, and any other tag; the error code
  "valid client" and the transition "no transition" are the two values the handler tests.
  The decoder itself is a parameter of the handler.
\<close>

datatype ErrorCode = STATUS_VALID_CLIENT | OtherErrorCode uint32

datatype StateTransition = ST_NO_TRANSITION | OtherStateTransition uint32

datatype LicensePacket =
    NEW_LICENSE
  | ERROR_ALERT ErrorCode StateTransition
  | LICENSE_REQUEST
  | PLATFORM_CHALLENGE
  | OtherLicense byte

text \<open>
  The client data handed over by the layer below: the handler takes its first entry and
  asserts that it is the core data (whose RDP version is kept here).
\<close>

datatype ClientData = ClientCoreData uint32 | OtherClientData

record Client =
  clientData :: "ClientData list"
  userId :: uint16
  channelId :: uint16

text \<open>The bodies of the two senders are a debug line saying "todo": nothing is written.\<close>

definition sendClientNewLicenseRequest :: "Client \<Rightarrow> effect list" where
  "sendClientNewLicenseRequest c = []"

definition sendClientChallengeResponse :: "Client \<Rightarrow> effect list" where
  "sendClientChallengeResponse c = []"

definition recvData_sec :: "Client \<Rightarrow> byte list \<Rightarrow> panic + effect list" where
  "recvData_sec c s = Inr [Emit ''data'' [ArgBytes s]]"

text \<open>The two labels of \<^verbatim>\<open>recvLicenceInfo\<close>.\<close>

definition connect_label :: "Client \<Rightarrow> panic + effect list" where
  "connect_label c =
     (case clientData c of
        [] \<Rightarrow> Inl IndexOutOfRange
      | ClientCoreData v # cd \<Rightarrow>
          Inr [TransportOn ''global'' Sec_recvData,
               Emit ''connect'' [ArgCoreData v, ArgUint16 (userId c), ArgUint16 (channelId c)]]
      | OtherClientData # cd \<Rightarrow> Inl TypeAssertionFailed)"

definition retry_label :: "Client \<Rightarrow> panic + effect list" where
  "retry_label c = Inr [TransportOnce ''global'' Sec_recvLicenceInfo]"

definition after :: "effect list \<Rightarrow> panic + effect list \<Rightarrow> panic + effect list" where
  "after es r = (case r of Inl p \<Rightarrow> Inl p | Inr es' \<Rightarrow> Inr (es @ es'))"

definition recvLicenceInfo ::
  "(byte list \<Rightarrow> LicensePacket) \<Rightarrow> Client \<Rightarrow> byte list \<Rightarrow> panic + effect list" where
  "recvLicenceInfo ReadLicensePacket c s =
     (case readSecurityHeader s of
        (h, r) \<Rightarrow>
          if securityFlag h AND LICENSE_PKT \<le> 0
          then Inr [Emit ''error'' [ArgError ''NODE_RDP_PROTOCOL_PDU_SEC_BAD_LICENSE_HEADER'']]
          else (case ReadLicensePacket r of
                  NEW_LICENSE \<Rightarrow> after [Emit ''success'' []] (connect_label c)
                | ERROR_ALERT code st \<Rightarrow>
                    if code = STATUS_VALID_CLIENT \<and> st = ST_NO_TRANSITION
                    then connect_label c
                    else retry_label c
                | LICENSE_REQUEST \<Rightarrow> after (sendClientNewLicenseRequest c) (retry_label c)
                | PLATFORM_CHALLENGE \<Rightarrow> after (sendClientChallengeResponse c) (retry_label c)
                | OtherLicense b \<Rightarrow>
                    Inr [Emit ''error'' [ArgError ''Not a valid license packet'']]))"

text \<open>
  Modelled from the spec: the \<^verbatim>\<open>emission\<close> library is not among the source files. The
  listeners on the \<^verbatim>\<open>global\<close> event of the lower transport are kept in registration order,
  each with a mark for one-shot (\<^verbatim>\<open>Once\<close>, "arm a one-shot listener") or persistent (\<^verbatim>\<open>On\<close>).
  A message on \<^verbatim>\<open>global\<close> is handed to every listener registered when it arrives; a
  one-shot listener is removed as it fires, and what the handlers register is added.
\<close>

type_synonym listeners = "(listener \<times> bool) list"

fun register :: "listeners \<Rightarrow> effect \<Rightarrow> listeners" where
  "register ls (TransportOn ev l) = (if ev = ''global'' then ls @ [(l, False)] else ls)"
| "register ls (TransportOnce ev l) = (if ev = ''global'' then ls @ [(l, True)] else ls)"
| "register ls e = ls"

fun on_global ::
  "(byte list \<Rightarrow> LicensePacket) \<Rightarrow> Client \<Rightarrow> listener \<Rightarrow> byte list \<Rightarrow> panic + effect list" where
  "on_global rlp c Sec_recvLicenceInfo s = recvLicenceInfo rlp c s"
| "on_global rlp c Sec_recvData s = recvData_sec c s"
| "on_global rlp c l s = Inr []"

fun fire ::
  "(byte list \<Rightarrow> LicensePacket) \<Rightarrow> Client \<Rightarrow> listeners \<Rightarrow> listeners \<Rightarrow> byte list
     \<Rightarrow> panic + (listeners \<times> effect list)" where
  "fire rlp c [] kept s = Inr (kept, [])"
| "fire rlp c ((l, once) # calls) kept s =
     (case on_global rlp c l s of
        Inl p \<Rightarrow> Inl p
      | Inr es \<Rightarrow>
          (case fire rlp c calls (foldl register kept es) s of
             Inl p \<Rightarrow> Inl p
           | Inr (kept', es') \<Rightarrow> Inr (kept', es @ es')))"

definition emit_global ::
  "(byte list \<Rightarrow> LicensePacket) \<Rightarrow> Client \<Rightarrow> listeners \<Rightarrow> byte list
     \<Rightarrow> panic + (listeners \<times> effect list)" where
  "emit_global rlp c ls s = fire rlp c ls (filter (\<lambda>(l, once). \<not> once) ls) s"

fun feed ::
  "(byte list \<Rightarrow> LicensePacket) \<Rightarrow> Client \<Rightarrow> listeners \<Rightarrow> byte list list
     \<Rightarrow> panic + (listeners \<times> effect list)" where
  "feed rlp c ls [] = Inr (ls, [])"
| "feed rlp c ls (s # ss) =
     (case emit_global rlp c ls s of
        Inl p \<Rightarrow> Inl p
      | Inr (ls', es) \<Rightarrow>
          (case feed rlp c ls' ss of
             Inl p \<Rightarrow> Inl p
           | Inr (ls'', es') \<Rightarrow> Inr (ls'', es @ es')))"

text \<open>\<^verbatim>\<open>connect\<close> arms the exchange: \<^verbatim>\<open>c.transport.Once("global", c.recvLicenceInfo)\<close>.\<close>

definition armed :: listeners where
  "armed = [(Sec_recvLicenceInfo, True)]"

fun is_write :: "effect \<Rightarrow> bool" where
  "is_write (TransportWrite b) = True"
| "is_write (ConnWrite b) = True"
| "is_write e = False"

fun is_event :: "string \<Rightarrow> effect \<Rightarrow> bool" where
  "is_event ev (Emit ev' args) = (ev = ev')"
| "is_event ev e = False"

text \<open>
  Vocabulary for the statements: a message on \<^verbatim>\<open>global\<close> is a licence frame for a packet
  when its security header carries \<^verbatim>\<open>LICENSE_PKT\<close> and the decoder returns that packet on
  what follows the header; a packet makes the handler retry when it is a licence request,
  a platform challenge, or an error alert other than (valid client, no transition).
\<close>

definition licence_frame ::
  "(byte list \<Rightarrow> LicensePacket) \<Rightarrow> byte list \<Rightarrow> LicensePacket \<Rightarrow> bool" where
  "licence_frame rlp s p =
     (securityFlag (fst (readSecurityHeader s)) AND LICENSE_PKT \<noteq> 0 \<and>
      rlp (snd (readSecurityHeader s)) = p)"

definition retry_packet :: "LicensePacket \<Rightarrow> bool" where
  "retry_packet p =
     (case p of
        LICENSE_REQUEST \<Rightarrow> True
      | PLATFORM_CHALLENGE \<Rightarrow> True
      | ERROR_ALERT code st \<Rightarrow> \<not> (code = STATUS_VALID_CLIENT \<and> st = ST_NO_TRANSITION)
      | _ \<Rightarrow> False)"

text \<open>
  A decoder to run the handler on concrete frames: it takes the tag from the first byte
  after the security header (1 a licence request, 2 a platform challenge, 3 a new licence).
\<close>

definition tag_decoder :: "byte list \<Rightarrow> LicensePacket" where
  "tag_decoder r =
     (case r of
        [] \<Rightarrow> OtherLicense 0
      | b # r' \<Rightarrow>
          if b = 1 then LICENSE_REQUEST
          else if b = 2 then PLATFORM_CHALLENGE
          else if b = 3 then NEW_LICENSE
          else OtherLicense b)"


section \<open>Properties of the x224 wire records\<close>

lemma Uint16LE_Write: "Uint16LE (ucast v) (ucast (drop_bit 8 v)) = v"
  unfolding Uint16LE_def
  by (rule bit_word_eqI) (auto simp add: bit_simps)

lemma Uint16BE_Write: "Uint16BE (ucast (drop_bit 8 v)) (ucast v) = v"
  unfolding Uint16BE_def
  by (rule bit_word_eqI) (auto simp add: bit_simps)

lemma Uint32LE_Write:
  "Uint32LE (ucast v) (ucast (drop_bit 8 v)) (ucast (drop_bit 16 v)) (ucast (drop_bit 24 v)) = v"
  unfolding Uint32LE_def
  apply (rule bit_word_eqI)
  apply (auto simp add: bit_simps)
  subgoal for n by (cases "24 \<le> n") auto
  done

lemma Unpack_Pack_Negotiation: "Unpack_Negotiation (Pack_Negotiation n @ r) = Some (n, r)"
  by (simp add: Unpack_Negotiation_def Pack_Negotiation_def ReadUInt8_def ReadUint16LE_def
      ReadUint32LE_def WriteUInt16LE_def WriteUInt32LE_def Uint16LE_Write Uint32LE_Write)

lemma Pack_NewNegotiation: "Pack_Negotiation NewNegotiation = [0, 0, 8, 0, 0, 0, 0, 0]"
  by (simp add: Pack_Negotiation_def NewNegotiation_def PROTOCOL_RDP_def WriteUInt16LE_def
      WriteUInt32LE_def)

lemma New_fields:
  "Code (NewClientConnectionRequestPDU c) = 0xE0"
  "Padding1 (NewClientConnectionRequestPDU c) = 0"
  "Padding2 (NewClientConnectionRequestPDU c) = 0"
  "Padding3 (NewClientConnectionRequestPDU c) = 0"
  "Cookie (NewClientConnectionRequestPDU c) = c"
  "ProtocolNeg (NewClientConnectionRequestPDU c) = NewNegotiation"
  by (simp_all add: NewClientConnectionRequestPDU_def Let_def TPDU_CONNECTION_REQUEST_def)

lemma Len_New: "Len (NewClientConnectionRequestPDU c) = of_nat (14 + length c)"
  by (simp add: NewClientConnectionRequestPDU_def Let_def Serialize_def Pack_NewNegotiation
      WriteUInt16BE_def)

lemma unat_Len_New: "unat (Len (NewClientConnectionRequestPDU c)) = (14 + length c) mod 256"
  unfolding Len_New unat_of_nat by simp

lemma Serialize_New:
  "Serialize (NewClientConnectionRequestPDU c) =
     [Len (NewClientConnectionRequestPDU c), 0xE0, 0, 0, 0, 0, 0] @ c @
     (if Len (NewClientConnectionRequestPDU c) > 14 then [0x0D, 0x0A] else []) @
     [0, 0, 8, 0, 0, 0, 0, 0]"
  by (simp add: Serialize_def New_fields Pack_NewNegotiation WriteUInt16BE_def WriteUInt16LE_def)

lemma Len_gt_14:
  "(Len (NewClientConnectionRequestPDU c) > 14) = (14 < (14 + length c) mod 256)"
  by (simp add: word_less_nat_alt unat_Len_New)

text \<open>
  Claim C4, as amended. For every cookie of length \<open>L \<le> 241\<close> (so that \<open>14 + L\<close> fits the
  length byte), the length byte of the request built by \<^verbatim>\<open>NewClientConnectionRequestPDU\<close>
  equals \<open>(6 + L + 8 + 1) - 1\<close>; the serialized bytes are the seven header bytes, the
  cookie, the CR/LF marker if and only if \<open>L > 0\<close>, and the eight negotiation bytes; the
  length byte exceeds 14 if and only if \<open>L > 0\<close>; and for the empty cookie the length byte
  equals the serialized size minus one.
\<close>

theorem C4_length_byte_and_marker:
  assumes "length c \<le> 241"
  shows "unat (Len (NewClientConnectionRequestPDU c)) = (6 + length c + 8 + 1) - 1
   \<and> Serialize (NewClientConnectionRequestPDU c) =
        [Len (NewClientConnectionRequestPDU c), 0xE0, 0, 0, 0, 0, 0] @ c @
        (if 0 < length c then [0x0D, 0x0A] else []) @ [0, 0, 8, 0, 0, 0, 0, 0]
   \<and> (Len (NewClientConnectionRequestPDU c) > 14) = (0 < length c)
   \<and> unat (Len (NewClientConnectionRequestPDU [])) =
       length (Serialize (NewClientConnectionRequestPDU [])) - 1"
proof -
  have m: "(14 + length c) mod 256 = 14 + length c" using assms by simp
  have g: "(Len (NewClientConnectionRequestPDU c) > 14) = (0 < length c)"
    unfolding Len_gt_14 m by simp
  have l: "unat (Len (NewClientConnectionRequestPDU c)) = (6 + length c + 8 + 1) - 1"
    unfolding unat_Len_New m by simp
  have s: "Serialize (NewClientConnectionRequestPDU c) =
        [Len (NewClientConnectionRequestPDU c), 0xE0, 0, 0, 0, 0, 0] @ c @
        (if 0 < length c then [0x0D, 0x0A] else []) @ [0, 0, 8, 0, 0, 0, 0, 0]"
    unfolding Serialize_New g ..
  have e: "unat (Len (NewClientConnectionRequestPDU [])) =
       length (Serialize (NewClientConnectionRequestPDU [])) - 1"
    by (simp add: Serialize_New Len_gt_14 unat_Len_New)
  from l s g e show ?thesis by blast
qed

text \<open>Witness for C4: a two-byte cookie.\<close>

theorem C4_length_byte_and_marker_witness:
  "length [0x41 :: byte, 0x42] \<le> 241
   \<and> unat (Len (NewClientConnectionRequestPDU [0x41, 0x42])) = 16
   \<and> Serialize (NewClientConnectionRequestPDU [0x41, 0x42]) =
        [Len (NewClientConnectionRequestPDU [0x41, 0x42]), 0xE0, 0, 0, 0, 0, 0,
         0x41, 0x42, 0x0D, 0x0A, 0, 0, 8, 0, 0, 0, 0, 0]
   \<and> Len (NewClientConnectionRequestPDU [0x41, 0x42]) > 14"
  using C4_length_byte_and_marker [of "[0x41, 0x42]"] by simp

text \<open>
  Counterexample to C4 as stated. With a one-byte cookie the length byte is 15 while 18
  bytes are serialized: the length was computed before the marker was written, so it is
  the size minus three. With a cookie of 242 bytes the length byte wraps to 0: it is not
  \<open>14 + L\<close>, and no marker is written although \<open>L > 0\<close>.
\<close>

theorem C4_length_byte_counterexample:
  "unat (Len (NewClientConnectionRequestPDU [0x41])) = 15
   \<and> length (Serialize (NewClientConnectionRequestPDU [0x41])) = 18
   \<and> unat (Len (NewClientConnectionRequestPDU [0x41])) \<noteq>
       length (Serialize (NewClientConnectionRequestPDU [0x41])) - 1
   \<and> unat (Len (NewClientConnectionRequestPDU (replicate 242 0))) = 0
   \<and> \<not> Len (NewClientConnectionRequestPDU (replicate 242 0)) > 14
   \<and> length (Serialize (NewClientConnectionRequestPDU (replicate 242 0))) = 257"
  by (simp add: Serialize_New Len_gt_14 unat_Len_New)

lemma ProtocolNeg_connect_message:
  "ProtocolNeg (connect_message x) =
     \<lparr>Type = TYPE_RDP_NEG_REQ, Flag = 0, Length = 8, Result = requestedProtocol x\<rparr>"
  by (simp add: connect_message_def Let_def NewClientConnectionRequestPDU_def NewNegotiation_def)

lemma Serialize_connect_message:
  "Serialize (connect_message x) =
     [14, 0xE0, 0, 0, 0, 0, 0] @ Pack_Negotiation (ProtocolNeg (connect_message x))"
  by (simp add: Serialize_def connect_message_def Let_def NewClientConnectionRequestPDU_def
       Pack_NewNegotiation WriteUInt16BE_def TPDU_CONNECTION_REQUEST_def)

lemma Connect_writes_request:
  "Connect env h x =
     (if transport x = NilTransport then (x\<lparr>host := h\<rparr>, [], Some ''no transport'')
      else (x\<lparr>host := h\<rparr>,
            [TransportWrite ([14, 0xE0, 0, 0, 0, 0, 0] @
               [TYPE_RDP_NEG_REQ, 0, 8, 0] @ WriteUInt32LE (requestedProtocol x)),
             TransportOnce ''data'' X224_recvConnectionConfirm], Write_err env))"
  by (simp add: Connect_def Let_def Serialize_connect_message ProtocolNeg_connect_message
      Pack_Negotiation_def WriteUInt16LE_def)

lemma Unpack_request_negotiation:
  "Unpack_Negotiation ([t, 0, 8, 0] @ WriteUInt32LE p) =
     Some (\<lparr>Type = t, Flag = 0, Length = 8, Result = p\<rparr>, [])"
proof -
  have "Pack_Negotiation \<lparr>Type = t, Flag = 0, Length = 8, Result = p\<rparr> =
          [t, 0, 8, 0] @ WriteUInt32LE p"
    by (simp add: Pack_Negotiation_def WriteUInt16LE_def)
  then show ?thesis
    using Unpack_Pack_Negotiation [of "\<lparr>Type = t, Flag = 0, Length = 8, Result = p\<rparr>" "[]"]
    by simp
qed

text \<open>
  Claim C8. For every requested-protocol bitmask \<open>p\<close>, \<^verbatim>\<open>Connect\<close> after
  \<^verbatim>\<open>SetRequestedProtocol p\<close> writes, on a transport that is not nil, the seven header bytes
  followed by the negotiation request: the type, a zero flag, the little-endian length
  \<open>8, 0\<close> and the bitmask (on a nil transport it writes nothing and returns an error).
  Unpacking the negotiation bytes yields type Request, length 8 and result \<open>p\<close>; reading
  the whole written request back yields length 8 and bitmask \<open>p\<close>; and the request record
  that \<^verbatim>\<open>Connect\<close> builds packs to these bytes, with result \<open>p\<close> and length 8.
\<close>

theorem C8_negotiation_roundtrip:
  "Connect env h (SetRequestedProtocol p x) =
     (if transport x = NilTransport
      then ((SetRequestedProtocol p x)\<lparr>host := h\<rparr>, [], Some ''no transport'')
      else ((SetRequestedProtocol p x)\<lparr>host := h\<rparr>,
            [TransportWrite ([14, 0xE0, 0, 0, 0, 0, 0] @
               [TYPE_RDP_NEG_REQ, 0, 8, 0] @ WriteUInt32LE p),
             TransportOnce ''data'' X224_recvConnectionConfirm], Write_err env))
   \<and> Unpack_Negotiation ([TYPE_RDP_NEG_REQ, 0, 8, 0] @ WriteUInt32LE p) =
       Some (\<lparr>Type = TYPE_RDP_NEG_REQ, Flag = 0, Length = 8, Result = p\<rparr>, [])
   \<and> map_option (\<lambda>m. (Length (ProtocolNeg_cc m), Result (ProtocolNeg_cc m)))
        (Unpack_ServerConnectionConfirm
           ([14, 0xE0, 0, 0, 0, 0, 0] @ [TYPE_RDP_NEG_REQ, 0, 8, 0] @ WriteUInt32LE p))
       = Some (8, p)
   \<and> Unpack_Negotiation (Pack_Negotiation (ProtocolNeg (connect_message (SetRequestedProtocol p x))))
     = Some (ProtocolNeg (connect_message (SetRequestedProtocol p x)), [])
   \<and> Result (ProtocolNeg (connect_message (SetRequestedProtocol p x))) = p
   \<and> Length (ProtocolNeg (connect_message (SetRequestedProtocol p x))) = 8
   \<and> Pack_Negotiation (ProtocolNeg (connect_message (SetRequestedProtocol p x)))
       = [TYPE_RDP_NEG_REQ, 0, 8, 0] @ WriteUInt32LE p
   \<and> map_option (\<lambda>m. (Length (ProtocolNeg_cc m), Result (ProtocolNeg_cc m)))
        (Unpack_ServerConnectionConfirm (Serialize (connect_message (SetRequestedProtocol p x))))
       = Some (8, p)"
proof -
  let ?n = "ProtocolNeg (connect_message (SetRequestedProtocol p x))"
  have n: "?n = \<lparr>Type = TYPE_RDP_NEG_REQ, Flag = 0, Length = 8, Result = p\<rparr>"
    by (simp add: ProtocolNeg_connect_message SetRequestedProtocol_def)
  have a: "Unpack_Negotiation (Pack_Negotiation ?n) = Some (?n, [])"
    using Unpack_Pack_Negotiation [of ?n "[]"] by simp
  have b: "Pack_Negotiation ?n = [TYPE_RDP_NEG_REQ, 0, 8, 0] @ WriteUInt32LE p"
    unfolding n by (simp add: Pack_Negotiation_def WriteUInt16LE_def)
  have c: "Unpack_ServerConnectionConfirm (Serialize (connect_message (SetRequestedProtocol p x)))
      = Some \<lparr>Len_cc = 14, Code_cc = 0xE0, Padding1_cc = 0, Padding2_cc = 0, Padding3_cc = 0,
          ProtocolNeg_cc = ?n\<rparr>"
    unfolding Serialize_connect_message
    by (simp add: Unpack_ServerConnectionConfirm_def ReadUInt8_def ReadUint16BE_def Uint16BE_def a)
  have d: "map_option (\<lambda>m. (Length (ProtocolNeg_cc m), Result (ProtocolNeg_cc m)))
        (Unpack_ServerConnectionConfirm (Serialize (connect_message (SetRequestedProtocol p x))))
       = Some (8, p)"
    unfolding c by (simp add: n)
  have e: "Result ?n = p" "Length ?n = 8" by (simp_all add: n)
  have f: "Connect env h (SetRequestedProtocol p x) =
     (if transport x = NilTransport
      then ((SetRequestedProtocol p x)\<lparr>host := h\<rparr>, [], Some ''no transport'')
      else ((SetRequestedProtocol p x)\<lparr>host := h\<rparr>,
            [TransportWrite ([14, 0xE0, 0, 0, 0, 0, 0] @
               [TYPE_RDP_NEG_REQ, 0, 8, 0] @ WriteUInt32LE p),
             TransportOnce ''data'' X224_recvConnectionConfirm], Write_err env))"
    unfolding Connect_writes_request by (simp add: SetRequestedProtocol_def)
  have g: "Unpack_Negotiation ([TYPE_RDP_NEG_REQ, 0, 8, 0] @ WriteUInt32LE p) =
       Some (\<lparr>Type = TYPE_RDP_NEG_REQ, Flag = 0, Length = 8, Result = p\<rparr>, [])"
    by (rule Unpack_request_negotiation)
  have s: "Serialize (connect_message (SetRequestedProtocol p x)) =
       [14, 0xE0, 0, 0, 0, 0, 0] @ [TYPE_RDP_NEG_REQ, 0, 8, 0] @ WriteUInt32LE p"
    unfolding Serialize_connect_message b ..
  have i: "map_option (\<lambda>m. (Length (ProtocolNeg_cc m), Result (ProtocolNeg_cc m)))
        (Unpack_ServerConnectionConfirm
           ([14, 0xE0, 0, 0, 0, 0, 0] @ [TYPE_RDP_NEG_REQ, 0, 8, 0] @ WriteUInt32LE p))
       = Some (8, p)"
    using d unfolding s .
  from a b d e f g i show ?thesis by blast
qed

text \<open>
  Witness for C8: \<^verbatim>\<open>Connect\<close> on the automaton of \<^verbatim>\<open>New\<close> with TLS and Hybrid requested.
\<close>

theorem C8_negotiation_roundtrip_witness:
  "Connect \<lparr>Write_err = None, StartTLS_err = None, StartNLA_err = None\<rparr> ''10.0.0.1:3389''
     (SetRequestedProtocol 3
        \<lparr>transport = TpktTransport, requestedProtocol = PROTOCOL_SSL OR PROTOCOL_HYBRID,
         selectedProtocol = PROTOCOL_SSL, dataHeader = NewDataHeader, host = ''0''\<rparr>) =
     (\<lparr>transport = TpktTransport, requestedProtocol = 3,
       selectedProtocol = PROTOCOL_SSL, dataHeader = NewDataHeader, host = ''10.0.0.1:3389''\<rparr>,
      [TransportWrite [14, 0xE0, 0, 0, 0, 0, 0, 1, 0, 8, 0, 3, 0, 0, 0],
       TransportOnce ''data'' X224_recvConnectionConfirm], None)
   \<and> Unpack_Negotiation [1, 0, 8, 0, 3, 0, 0, 0] =
       Some (\<lparr>Type = 1, Flag = 0, Length = 8, Result = 3\<rparr>, [])"
  using C8_negotiation_roundtrip
    [of "\<lparr>Write_err = None, StartTLS_err = None, StartNLA_err = None\<rparr>" "''10.0.0.1:3389''" 3
        "\<lparr>transport = TpktTransport, requestedProtocol = PROTOCOL_SSL OR PROTOCOL_HYBRID,
          selectedProtocol = PROTOCOL_SSL, dataHeader = NewDataHeader, host = ''0''\<rparr>"]
  by (simp add: SetRequestedProtocol_def TYPE_RDP_NEG_REQ_def WriteUInt32LE_def)


section \<open>Properties of the confirm handler\<close>

lemma Unpack_confirm15:
  "Unpack_ServerConnectionConfirm [l, c, p1a, p1b, p2a, p2b, p3, t, f, l0, l1, r0, r1, r2, r3] =
     Some \<lparr>Len_cc = l, Code_cc = c, Padding1_cc = Uint16BE p1a p1b,
           Padding2_cc = Uint16BE p2a p2b, Padding3_cc = p3,
           ProtocolNeg_cc = \<lparr>Type = t, Flag = f, Length = Uint16LE l0 l1,
                              Result = Uint32LE r0 r1 r2 r3\<rparr>\<rparr>"
  by (simp add: Unpack_ServerConnectionConfirm_def Unpack_Negotiation_def ReadUInt8_def
      ReadUint16BE_def ReadUint16LE_def ReadUint32LE_def)

lemma confirm_other:
  assumes "Unpack_ServerConnectionConfirm s = Some m"
    and "Type (ProtocolNeg_cc m) \<noteq> TYPE_RDP_NEG_FAILURE"
    and "Type (ProtocolNeg_cc m) \<noteq> TYPE_RDP_NEG_RSP"
  shows "recvConnectionConfirm env x s w =
    (if selectedProtocol x = PROTOCOL_HYBRID_EX then Inr (x, w, [])
     else if transport x = NilTransport then Inl NilDereference
     else if selectedProtocol x = PROTOCOL_RDP
     then Inr (x, w, [TransportOn ''data'' X224_recvData])
     else if selectedProtocol x = PROTOCOL_SSL
     then (if transport x \<noteq> TpktTransport then Inl TypeAssertionFailed
           else case StartTLS_err env of
                  Some err \<Rightarrow> Inr (x, w, [TransportOn ''data'' X224_recvData, StartTLS])
                | None \<Rightarrow>
                    Inr (x, w, [TransportOn ''data'' X224_recvData, StartTLS,
                                Emit ''connect'' [ArgProtocol (selectedProtocol x)]]))
     else if selectedProtocol x = PROTOCOL_HYBRID
     then (if transport x \<noteq> TpktTransport then Inl TypeAssertionFailed
           else case StartNLA_err env of
                  Some err \<Rightarrow> Inr (x, w, [TransportOn ''data'' X224_recvData, StartNLA])
                | None \<Rightarrow>
                    Inr (x, w, [TransportOn ''data'' X224_recvData, StartNLA,
                                Emit ''connect'' [ArgProtocol (selectedProtocol x)]]))
     else Inr (x, w, [TransportOn ''data'' X224_recvData]))"
  using assms by (simp add: recvConnectionConfirm_def)









text \<open>
  Claim C3, as amended. When the confirm parses and its negotiation type is Failure or
  Response, the handler stores the host in \<^verbatim>\<open>FindSuccess\<close>; when the result file can be
  opened for writing it appends the host and a line feed to it, and otherwise it writes to
  no file; it leaves the automaton as it was and does nothing else: no upgrade call, no
  listener, no event.
\<close>

theorem C3_failure_or_response_records_host:
  assumes "Unpack_ServerConnectionConfirm s = Some m"
    and "Type (ProtocolNeg_cc m) = TYPE_RDP_NEG_FAILURE \<or>
         Type (ProtocolNeg_cc m) = TYPE_RDP_NEG_RSP"
  shows "recvConnectionConfirm env x s w =
           Inr (x, \<lparr>FindSuccess = host x,
                    resultFile = (case resultFile w of None \<Rightarrow> None
                                  | Some content \<Rightarrow> Some (content @ host x @ [CHR 0x0A]))\<rparr>, [])"
  using assms
  by (auto simp add: recvConnectionConfirm_def savefile_def split: option.splits)

text \<open>Witness for C3: a confirm whose negotiation is a Response selecting TLS.\<close>

theorem C3_failure_or_response_records_host_witness:
  "recvConnectionConfirm \<lparr>Write_err = None, StartTLS_err = None, StartNLA_err = None\<rparr>
     \<lparr>transport = TpktTransport, requestedProtocol = 3, selectedProtocol = PROTOCOL_SSL,
       dataHeader = NewDataHeader, host = ''10.0.0.1:3389''\<rparr>
     [0x0E, 0xD0, 0, 0, 0x12, 0x34, 0, 2, 0, 8, 0, 1, 0, 0, 0]
     \<lparr>FindSuccess = [], resultFile = Some ''a''\<rparr>
   = Inr (\<lparr>transport = TpktTransport, requestedProtocol = 3, selectedProtocol = PROTOCOL_SSL,
            dataHeader = NewDataHeader, host = ''10.0.0.1:3389''\<rparr>,
          \<lparr>FindSuccess = ''10.0.0.1:3389'',
            resultFile = Some (''a10.0.0.1:3389'' @ [CHR 0x0A])\<rparr>, [])"
  using C3_failure_or_response_records_host
    [of "[0x0E, 0xD0, 0, 0, 0x12, 0x34, 0, 2, 0, 8, 0, 1, 0, 0, 0]" _
      "\<lparr>Write_err = None, StartTLS_err = None, StartNLA_err = None\<rparr>"
      "\<lparr>transport = TpktTransport, requestedProtocol = 3, selectedProtocol = PROTOCOL_SSL,
        dataHeader = NewDataHeader, host = ''10.0.0.1:3389''\<rparr>"
      "\<lparr>FindSuccess = [], resultFile = Some ''a''\<rparr>", OF Unpack_confirm15]
  by (simp add: TYPE_RDP_NEG_RSP_def)

text \<open>
  Counterexample to C3 as stated: \<^verbatim>\<open>savefile\<close> opens the result file write-only and does
  not create it. When the file cannot be opened the handler, given a Response, sets
  \<^verbatim>\<open>FindSuccess\<close> and returns: the host is written to no file.
\<close>

theorem C3_result_file_absent_counterexample:
  "recvConnectionConfirm \<lparr>Write_err = None, StartTLS_err = None, StartNLA_err = None\<rparr>
     \<lparr>transport = TpktTransport, requestedProtocol = 3, selectedProtocol = PROTOCOL_SSL,
       dataHeader = NewDataHeader, host = ''10.0.0.1:3389''\<rparr>
     [0x0E, 0xD0, 0, 0, 0x12, 0x34, 0, 2, 0, 8, 0, 1, 0, 0, 0]
     \<lparr>FindSuccess = [], resultFile = None\<rparr>
   = Inr (\<lparr>transport = TpktTransport, requestedProtocol = 3, selectedProtocol = PROTOCOL_SSL,
            dataHeader = NewDataHeader, host = ''10.0.0.1:3389''\<rparr>,
          \<lparr>FindSuccess = ''10.0.0.1:3389'', resultFile = None\<rparr>, [])"
  by (simp add: recvConnectionConfirm_def Unpack_confirm15 savefile_def TYPE_RDP_NEG_RSP_def
      TYPE_RDP_NEG_FAILURE_def)

text \<open>
  Claim C9. Two confirms that parse, with the same negotiation type, neither Failure nor
  Response, make the handler do the same whatever their result bitmasks are: same
  outcome, same effects, same state. The handler leaves \<^verbatim>\<open>selectedProtocol\<close> as it was, and
  \<^verbatim>\<open>New\<close> sets it to TLS.
\<close>

theorem C9_confirm_result_never_consulted:
  assumes "Unpack_ServerConnectionConfirm s1 = Some m1"
    and "Unpack_ServerConnectionConfirm s2 = Some m2"
    and "Type (ProtocolNeg_cc m1) = Type (ProtocolNeg_cc m2)"
    and "Type (ProtocolNeg_cc m1) \<noteq> TYPE_RDP_NEG_FAILURE"
    and "Type (ProtocolNeg_cc m1) \<noteq> TYPE_RDP_NEG_RSP"
  shows "recvConnectionConfirm env x s1 w = recvConnectionConfirm env x s2 w
    \<and> (case recvConnectionConfirm env x s1 w of Inl p \<Rightarrow> True
         | Inr (x', w', es) \<Rightarrow> selectedProtocol x' = selectedProtocol x)
    \<and> (case New t of Inl p \<Rightarrow> t = NilTransport
         | Inr (x0, es) \<Rightarrow> selectedProtocol x0 = PROTOCOL_SSL)"
proof -
  have a: "recvConnectionConfirm env x s1 w = recvConnectionConfirm env x s2 w"
    using assms by (simp add: confirm_other [of s1 m1] confirm_other [of s2 m2])
  have b: "(case recvConnectionConfirm env x s1 w of Inl p \<Rightarrow> True
         | Inr (x', w', es) \<Rightarrow> selectedProtocol x' = selectedProtocol x)"
    using assms by (simp add: confirm_other [of s1 m1] split: option.split)
  have c: "(case New t of Inl p \<Rightarrow> t = NilTransport
         | Inr (x0, es) \<Rightarrow> selectedProtocol x0 = PROTOCOL_SSL)"
    by (simp add: New_def Let_def)
  from a b c show ?thesis by blast
qed

text \<open>
  Witness for C9: two confirms of negotiation type 0, one with result Hybrid and one with
  result standard RDP security, handled by an automaton with TLS selected.
\<close>

theorem C9_confirm_result_never_consulted_witness:
  "recvConnectionConfirm \<lparr>Write_err = None, StartTLS_err = None, StartNLA_err = None\<rparr>
     \<lparr>transport = TpktTransport, requestedProtocol = 3, selectedProtocol = PROTOCOL_SSL,
       dataHeader = NewDataHeader, host = ''10.0.0.1:3389''\<rparr>
     [0x0E, 0xD0, 0, 0, 0x12, 0x34, 0, 0, 0, 8, 0, 2, 0, 0, 0]
     \<lparr>FindSuccess = [], resultFile = None\<rparr>
   = recvConnectionConfirm \<lparr>Write_err = None, StartTLS_err = None, StartNLA_err = None\<rparr>
     \<lparr>transport = TpktTransport, requestedProtocol = 3, selectedProtocol = PROTOCOL_SSL,
       dataHeader = NewDataHeader, host = ''10.0.0.1:3389''\<rparr>
     [0x0E, 0xD0, 0, 0, 0x12, 0x34, 0, 0, 0, 8, 0, 0, 0, 0, 0]
     \<lparr>FindSuccess = [], resultFile = None\<rparr>"
  using C9_confirm_result_never_consulted
    [of "[0x0E, 0xD0, 0, 0, 0x12, 0x34, 0, 0, 0, 8, 0, 2, 0, 0, 0]" _
      "[0x0E, 0xD0, 0, 0, 0x12, 0x34, 0, 0, 0, 8, 0, 0, 0, 0, 0]" _
      "\<lparr>Write_err = None, StartTLS_err = None, StartNLA_err = None\<rparr>"
      "\<lparr>transport = TpktTransport, requestedProtocol = 3, selectedProtocol = PROTOCOL_SSL,
        dataHeader = NewDataHeader, host = ''10.0.0.1:3389''\<rparr>"
      "\<lparr>FindSuccess = [], resultFile = None\<rparr>" TpktTransport,
     OF Unpack_confirm15 Unpack_confirm15]
  by (simp add: TYPE_RDP_NEG_RSP_def TYPE_RDP_NEG_FAILURE_def)

text \<open>
  Claim C10. The data handler emits, for every frame of at least three bytes, exactly one
  \<^verbatim>\<open>data\<close> event carrying the frame without its first three bytes; on a shorter frame the
  slice \<^verbatim>\<open>s[3:]\<close> is out of bounds and the handler panics.
\<close>

theorem C10_recvData_strips_three_bytes:
  "(if 3 \<le> length s
    then recvData x s = Inr [Emit ''data'' [ArgBytes (drop 3 s)]] \<and>
         (\<exists>h. length h = 3 \<and> s = h @ drop 3 s)
    else recvData x s = Inl SliceBoundsOutOfRange)"
  by (auto simp add: recvData_def intro: exI [of _ "take 3 s"])

text \<open>Witness for C10: a frame of five bytes and a frame of two.\<close>

theorem C10_recvData_strips_three_bytes_witness:
  "recvData \<lparr>transport = TpktTransport, requestedProtocol = 3, selectedProtocol = PROTOCOL_SSL,
       dataHeader = NewDataHeader, host = ''10.0.0.1:3389''\<rparr> [2, 0xF0, 0x80, 0x64, 0x65]
     = Inr [Emit ''data'' [ArgBytes [0x64, 0x65]]]
   \<and> recvData \<lparr>transport = TpktTransport, requestedProtocol = 3, selectedProtocol = PROTOCOL_SSL,
       dataHeader = NewDataHeader, host = ''10.0.0.1:3389''\<rparr> [2, 0xF0]
     = Inl SliceBoundsOutOfRange"
  using C10_recvData_strips_three_bytes [of "[2, 0xF0, 0x80, 0x64, 0x65]"
      "\<lparr>transport = TpktTransport, requestedProtocol = 3, selectedProtocol = PROTOCOL_SSL,
        dataHeader = NewDataHeader, host = ''10.0.0.1:3389''\<rparr>"]
    C10_recvData_strips_three_bytes [of "[2, 0xF0]"
      "\<lparr>transport = TpktTransport, requestedProtocol = 3, selectedProtocol = PROTOCOL_SSL,
        dataHeader = NewDataHeader, host = ''10.0.0.1:3389''\<rparr>"]
  by simp

section \<open>Properties of the tpkt framing\<close>

lemma bit_0x8000: "bit (0x8000 :: uint16) n = (n = 15)"
proof -
  have "(0x8000 :: uint16) = 2 ^ 15" by simp
  then show ?thesis by (simp only: bit_exp_iff) (auto simp add: possible_bit_word)
qed

lemma bit_0x80: "bit (0x80 :: int) n = (n = 7)"
proof -
  have "(0x80 :: int) = 2 ^ 7" by simp
  then show ?thesis by (simp only: bit_exp_iff) simp
qed

lemma hi_flag_gen:
  fixes M :: uint16 and K :: int
  assumes M: "\<And>n. bit M n = (n = 15)" and K: "\<And>n. bit K n = (n = 7)"
  shows "uint (ucast (drop_bit 8 (W OR M)) :: byte) AND K \<noteq> 0"
proof -
  have "bit (uint (ucast (drop_bit 8 (W OR M)) :: byte) AND K) 7"
    by (simp add: bit_simps M K)
  then show ?thesis by (metis bit_0_eq bot_apply bot_bool_def)
qed

lemma packet_size_gen:
  fixes M :: uint16 and K :: int
  assumes M: "\<And>n. bit M n = (n = 15)" and K: "\<And>n. bit K n = (n = 7)"
  assumes "\<not> bit W 15"
  shows "push_bit 8 (uint (ucast (drop_bit 8 (W OR M)) :: byte) AND NOT K)
           + uint (ucast (W OR M) :: byte) = uint W"
proof -
  let ?a = "push_bit 8 (uint (ucast (drop_bit 8 (W OR M)) :: byte) AND NOT K)"
  let ?b = "uint (ucast (W OR M) :: byte)"
  have "?a + ?b = ?a OR ?b"
    by (rule disjunctive_add) (auto simp add: bit_simps)
  also have "\<dots> = uint W"
  proof (rule bit_eqI)
    fix n
    show "bit (?a OR ?b) n = bit (uint W) n"
    proof (cases "n < 8")
      case True
      then show ?thesis by (auto simp add: bit_simps M K)
    next
      case False
      then have n: "8 + (n - 8) = n" by simp
      show ?thesis
      proof (cases "n < 16")
        case True
        with False assms(3) show ?thesis
          by (cases "n = 15") (auto simp add: bit_simps M K n)
      next
        case False
        then show ?thesis by (auto simp add: bit_simps M K dest: bit_imp_le_length)
      qed
    qed
  qed
  finally show ?thesis .
qed

lemma packet_size:
  assumes "\<not> bit (W :: uint16) 15"
  shows "push_bit 8 (uint (ucast (drop_bit 8 (W OR 0x8000)) :: byte) AND NOT 0x80)
           + uint (ucast (W OR 0x8000) :: byte) = uint W"
  using assms by (rule packet_size_gen [OF bit_0x8000 bit_0x80])

lemma hi_flag: "uint (ucast (drop_bit 8 (W OR (0x8000 :: uint16))) :: byte) AND 0x80 \<noteq> 0"
  by (rule hi_flag_gen [OF bit_0x8000 bit_0x80])

lemma bit15: "n < 2 ^ 15 \<Longrightarrow> \<not> bit (of_nat n :: uint16) 15"
proof -
  assume "n < 2 ^ 15"
  then have "\<not> bit n 15" by (simp add: bit_iff_odd)
  then show ?thesis by (simp only: bit_of_nat_iff) simp
qed

lemma and_high_zero:
  fixes M :: uint16
  assumes M: "\<And>n. bit M n = (n = 15)" and W: "\<not> bit W 15"
  shows "W AND M = 0"
  by (rule bit_word_eqI) (use W in \<open>auto simp add: bit_simps M\<close>)

lemma unat_len3:
  assumes "n + 3 < 0x8000"
  shows "unat ((of_nat (n + 3) :: uint16) OR 0x8000) = n + 3 + 0x8000"
proof -
  let ?W = "of_nat (n + 3) :: uint16"
  have b: "\<not> bit ?W 15" using assms by (intro bit15) simp
  have "?W AND 0x8000 = 0"
    using bit_0x8000 b by (rule and_high_zero)
  then have o: "?W OR 0x8000 = ?W + 0x8000"
    by (simp only: disjunctive_add_eq_or)
  have u: "unat ?W = n + 3" using assms by (simp add: unat_of_nat del: of_nat_add)
  have "unat ?W + unat (0x8000 :: uint16) < 2 ^ LENGTH(16)" using assms unfolding u by simp
  then have "unat (?W + 0x8000) = unat ?W + unat (0x8000 :: uint16)"
    by (simp only: unat_add_lem)
  then show ?thesis unfolding o u by simp
qed

lemma uint_len3: "n + 3 < 0x8000 \<Longrightarrow> uint (of_nat (n + 3) :: uint16) = int n + 3"
  by (simp add: unsigned_of_nat take_bit_nat_eq_self del: of_nat_add)

lemma uint_sub4: "n < 65536 \<Longrightarrow> uint ((of_nat (n + 4) :: uint16) - 4) = int n"
  by (simp add: unsigned_of_nat take_bit_nat_eq_self)

lemma unat_len4: "n \<le> 65531 \<Longrightarrow> unat (of_nat (n + 4) :: uint16) = n + 4"
  by (simp add: unat_of_nat del: of_nat_add)

lemma and_0x3: "(x :: byte) AND 0x3 = take_bit 2 x"
proof -
  have "(0x3 :: byte) = mask 2" by (simp add: mask_eq_exp_minus_1)
  then show ?thesis by (simp only: take_bit_eq_mask)
qed

lemma flags_le3:
  assumes "sf \<le> 3"
  shows "sf AND 0x3 = (sf :: byte)"
proof -
  have m: "(0x3 :: byte) = mask 2" by (simp add: mask_eq_exp_minus_1)
  from assms have "sf < 2 ^ 2" by (simp add: word_le_nat_alt word_less_nat_alt)
  then show ?thesis unfolding m by (rule less_mask_eq)
qed

lemma and_not_0x80_gen:
  fixes K :: int
  assumes K: "\<And>n. bit K n = (n = 7)"
  shows "uint (b :: byte) AND NOT K = uint b AND mask 7"
proof (rule bit_eqI)
  fix n
  show "bit (uint b AND NOT K) n = bit (uint b AND mask 7) n"
  proof (cases "n < 8")
    case True
    then show ?thesis by (cases "n = 7") (auto simp add: bit_simps K)
  next
    case False
    then show ?thesis by (auto simp add: bit_simps K dest: bit_imp_le_length)
  qed
qed

lemma and_not_0x80: "uint (b :: byte) AND NOT 0x80 = uint b AND 0x7F"
proof -
  have k: "(0x7F :: int) = mask 7" by (simp add: mask_eq_exp_minus_1)
  show ?thesis unfolding k by (rule and_not_0x80_gen [OF bit_0x80])
qed

lemma fast_version_ne:
  "FASTPATH_ACTION_FASTPATH OR push_bit 6 (sf AND 0x3) \<noteq> FASTPATH_ACTION_X224"
proof
  assume "FASTPATH_ACTION_FASTPATH OR push_bit 6 (sf AND 0x3) = FASTPATH_ACTION_X224"
  then have "bit (FASTPATH_ACTION_FASTPATH OR push_bit 6 (sf AND 0x3)) 0 =
             bit FASTPATH_ACTION_X224 0"
    by simp
  then show False
    by (simp add: FASTPATH_ACTION_FASTPATH_def FASTPATH_ACTION_X224_def bit_simps)
qed

lemma fast_version_flags:
  "drop_bit 6 (FASTPATH_ACTION_FASTPATH OR push_bit 6 (sf AND 0x3)) AND 0x3 = sf AND (0x3 :: byte)"
  unfolding and_0x3 FASTPATH_ACTION_FASTPATH_def
  by (rule bit_word_eqI) (auto simp add: bit_simps)

lemma replicate_2: "replicate 2 x = [x, x]"
  by (simp add: numeral_2_eq_2)

text \<open>One successful read: the callback runs on the first \<open>n\<close> bytes, the loop goes on.\<close>

lemma reader_step:
  assumes "0 \<le> n" and "n \<le> int (length bs)"
    and "invoke cb t (take (nat n) bs) None = Inr (t', es, nxt)"
  shows "reader t (Some (StartReadBytes n cb)) bs fail =
           (case reader t' nxt (drop (nat n) bs) fail of
              (t'', es', st, rest) \<Rightarrow> (t'', es @ es', st, rest))"
  using assms by (subst reader.simps(2)) simp

lemma recvHeader_slow:
  "recvHeader t (FASTPATH_ACTION_X224 # b # r) None =
     Inr (t, [], Some (StartReadBytes 2 CB_recvExtendedHeader))"
  by (simp add: recvHeader_def)

lemma recvExtendedHeader_ok:
  "recvExtendedHeader t [b0, b1] None =
     Inr (t, [], Some (StartReadBytes (uint (Uint16BE b0 b1 - 4)) CB_recvData))"
  by (simp add: recvExtendedHeader_def ReadUint16BE_def)

lemma recvHeader_fast:
  assumes "version \<noteq> FASTPATH_ACTION_X224" and "uint l AND 0x80 \<noteq> 0"
  shows "recvHeader t (version # l # r) None =
     Inr (t\<lparr>secFlag := drop_bit 6 version AND 0x3\<rparr>, [],
          Some (StartReadBytes 1 (CB_recvExtendedFastPathHeader (uint l))))"
  using assms by (simp add: recvHeader_def Let_def)

lemma recvExtendedFastPathHeader_ok:
  assumes "push_bit 8 (length' AND NOT 0x80) + uint rightPart - 3 = n"
  shows "recvExtendedFastPathHeader t [rightPart] length' err =
     Inr (t, [], Some (StartReadBytes n CB_recvFastPath))"
  unfolding assms [symmetric]
  by (simp add: recvExtendedFastPathHeader_def ReadUInt8_def Let_def)

lemma recvHeader_short:
  assumes "version \<noteq> FASTPATH_ACTION_X224" and "l AND 0x80 = 0"
  shows "recvHeader t [version, l] None =
           Inr (t\<lparr>secFlag := drop_bit 6 version AND 0x3\<rparr>, [], None)"
proof -
  have "uint l AND 0x80 = uint (l AND 0x80)" by (simp add: uint_and)
  with assms show ?thesis by (simp add: recvHeader_def Let_def)
qed

lemma slow_roundtrip:
  assumes "length data < 65536"
  shows "reader t start (Write_buff data @ follow) fail =
           (case reader t start follow fail of
              (t', es, st, rest) \<Rightarrow> (t', Emit ''data'' [ArgBytes data] # es, st, rest))"
proof -
  let ?len = "of_nat (length data + 4) :: uint16"
  have n: "uint (?len - 4) = int (length data)"
    using assms by (rule uint_sub4)
  have 1: "reader t start (Write_buff data @ follow) fail =
      (case reader t (Some (StartReadBytes 2 CB_recvExtendedHeader))
             (WriteUInt16BE ?len @ data @ follow) fail of
         (t'', es', st, rest) \<Rightarrow> (t'', [] @ es', st, rest))"
    unfolding start_def
    by (subst reader_step [where t' = t and es = "[]"
          and nxt = "Some (StartReadBytes 2 CB_recvExtendedHeader)"])
       (simp_all add: Write_buff_def WriteUInt16BE_def recvHeader_slow)
  have 2: "reader t (Some (StartReadBytes 2 CB_recvExtendedHeader))
             (WriteUInt16BE ?len @ data @ follow) fail =
      (case reader t (Some (StartReadBytes (int (length data)) CB_recvData))
             (data @ follow) fail of
         (t'', es', st, rest) \<Rightarrow> (t'', [] @ es', st, rest))"
    by (subst reader_step [where t' = t and es = "[]"
          and nxt = "Some (StartReadBytes (int (length data)) CB_recvData)"])
       (simp_all add: WriteUInt16BE_def recvExtendedHeader_ok Uint16BE_Write n del: of_nat_add)
  have 3: "reader t (Some (StartReadBytes (int (length data)) CB_recvData))
             (data @ follow) fail =
      (case reader t start follow fail of
         (t'', es', st, rest) \<Rightarrow> (t'', [Emit ''data'' [ArgBytes data]] @ es', st, rest))"
    by (subst reader_step [where t' = t and es = "[Emit ''data'' [ArgBytes data]]"
          and nxt = start])
       (simp_all add: recvData_tpkt_def start_def)
  show ?thesis
    unfolding 1 2 3 by (simp split: prod.splits)
qed

lemma fast_frame:
  assumes v: "v \<noteq> FASTPATH_ACTION_X224" and hi: "uint hi AND 0x80 \<noteq> 0"
    and size: "push_bit 8 (uint hi AND NOT 0x80) + uint lo - 3 = int (length data)"
    and lst: "fastPathListener t"
  shows "reader t start (v # hi # lo # data @ follow) fail =
           (case reader (t\<lparr>secFlag := drop_bit 6 v AND 0x3\<rparr>) start follow fail of
              (t', es, st, rest) \<Rightarrow>
                (t', RecvFastPath (drop_bit 6 v AND 0x3) data # es, st, rest))"
proof -
  let ?t = "t\<lparr>secFlag := drop_bit 6 v AND 0x3\<rparr>"
  have 1: "reader t start (v # hi # lo # data @ follow) fail =
      (case reader ?t (Some (StartReadBytes 1 (CB_recvExtendedFastPathHeader (uint hi))))
             (lo # data @ follow) fail of
         (t'', es', st, rest) \<Rightarrow> (t'', [] @ es', st, rest))"
    unfolding start_def
    by (subst reader_step [where t' = ?t and es = "[]"
          and nxt = "Some (StartReadBytes 1 (CB_recvExtendedFastPathHeader (uint hi)))"])
       (simp_all add: recvHeader_fast [OF v hi])
  have 2: "reader ?t (Some (StartReadBytes 1 (CB_recvExtendedFastPathHeader (uint hi))))
             (lo # data @ follow) fail =
      (case reader ?t (Some (StartReadBytes (int (length data)) CB_recvFastPath))
             (data @ follow) fail of
         (t'', es', st, rest) \<Rightarrow> (t'', [] @ es', st, rest))"
    by (subst reader_step [where t' = ?t and es = "[]"
          and nxt = "Some (StartReadBytes (int (length data)) CB_recvFastPath)"])
       (simp_all add: recvExtendedFastPathHeader_ok [OF size])
  have 3: "reader ?t (Some (StartReadBytes (int (length data)) CB_recvFastPath))
             (data @ follow) fail =
      (case reader ?t start follow fail of
         (t'', es', st, rest) \<Rightarrow>
           (t'', [RecvFastPath (drop_bit 6 v AND 0x3) data] @ es', st, rest))"
    by (subst reader_step [where t' = ?t and es = "[RecvFastPath (drop_bit 6 v AND 0x3) data]"
          and nxt = start])
       (simp_all add: recvFastPath_def start_def lst)
  show ?thesis
    unfolding 1 2 3 by (simp split: prod.splits)
qed

lemma fast_roundtrip:
  assumes len: "length data + 3 < 0x8000" and lst: "fastPathListener t"
  shows "reader t start (SendFastPath_buff sf data @ follow) fail =
           (case reader (t\<lparr>secFlag := sf AND 0x3\<rparr>) start follow fail of
              (t', es, st, rest) \<Rightarrow> (t', RecvFastPath (sf AND 0x3) data # es, st, rest))"
proof -
  let ?W = "of_nat (length data + 3) :: uint16"
  let ?v = "FASTPATH_ACTION_FASTPATH OR push_bit 6 (sf AND 0x3)"
  let ?hi = "ucast (drop_bit 8 (?W OR 0x8000)) :: byte"
  let ?lo = "ucast (?W OR 0x8000) :: byte"
  have b: "\<not> bit ?W 15" using len by (intro bit15) simp
  have size: "push_bit 8 (uint ?hi AND NOT 0x80) + uint ?lo - 3 = int (length data)"
    unfolding packet_size [OF b] using len by (simp add: uint_len3 del: of_nat_add)
  have buff: "SendFastPath_buff sf data @ follow = ?v # ?hi # ?lo # data @ follow"
    by (simp only: SendFastPath_buff_def WriteUInt16BE_def append.simps)
  show ?thesis
    unfolding buff fast_frame [OF fast_version_ne hi_flag size lst] fast_version_flags ..
qed

lemma reader_short_fast:
  assumes "version \<noteq> FASTPATH_ACTION_X224" and "l AND 0x80 = 0"
  shows "reader t start (version # l # follow) fail =
           (t\<lparr>secFlag := drop_bit 6 version AND 0x3\<rparr>, [], Idle, follow)"
  unfolding start_def
  by (subst reader_step [where t' = "t\<lparr>secFlag := drop_bit 6 version AND 0x3\<rparr>"
        and es = "[]" and nxt = None])
     (simp_all add: recvHeader_short [OF assms])

lemma reader_waits: "reader t start [] None = (t, [], Waiting (StartReadBytes 2 CB_recvHeader), [])"
  by (simp add: start_def reader.simps(2))

text \<open>
  Claim C5, as amended. For every payload of at most \<open>0x7FFC\<close> bytes (so that the length
  plus three fits fifteen bits) and a reader with a fast-path listener installed, reading a
  frame built by \<^verbatim>\<open>SendFastPath\<close> hands the listener the two security-flag bits and the
  payload, and the loop goes on with the bytes that follow; a flag value of at most 3 is
  its own two low bits. The frame is one byte holding the flag bits in bits 6 and 7, the
  big-endian 16-bit value of the payload length plus 3 with bit \<open>0x8000\<close> set, and the
  payload. On the extended-length path the body size is the first length byte and \<open>0x7F\<close>,
  shifted left by 8, plus the second length byte, minus 3.
\<close>

theorem C5_fastpath_roundtrip:
  assumes "length data \<le> 0x7FFC" and "fastPathListener t"
  shows "reader t start (SendFastPath_buff sf data @ follow) fail =
           (case reader (t\<lparr>secFlag := sf AND 0x3\<rparr>) start follow fail of
              (t', es, st, rest) \<Rightarrow> (t', RecvFastPath (sf AND 0x3) data # es, st, rest))
    \<and> (if sf \<le> 3 then sf AND 0x3 = sf else sf AND 0x3 \<noteq> sf)
    \<and> SendFastPath t sf data =
        [ConnWrite ([push_bit 6 (sf AND 0x3)] @
                    WriteUInt16BE (of_nat (length data + 3) OR 0x8000) @ data)]
    \<and> unat ((of_nat (length data + 3) :: uint16) OR 0x8000) = length data + 3 + 0x8000
    \<and> recvExtendedFastPathHeader t [nb] (uint (lb :: byte)) err =
        Inr (t, [], Some (StartReadBytes
               (push_bit 8 (uint lb AND 0x7F) + uint nb - 3) CB_recvFastPath))"
proof -
  from assms(1) have len: "length data + 3 < 0x8000" by simp
  have a: "reader t start (SendFastPath_buff sf data @ follow) fail =
           (case reader (t\<lparr>secFlag := sf AND 0x3\<rparr>) start follow fail of
              (t', es, st, rest) \<Rightarrow> (t', RecvFastPath (sf AND 0x3) data # es, st, rest))"
    using len assms(2) by (rule fast_roundtrip)
  have b: "(if sf \<le> 3 then sf AND 0x3 = sf else sf AND 0x3 \<noteq> sf)"
  proof (cases "sf \<le> 3")
    case True
    then show ?thesis by (simp add: flags_le3)
  next
    case False
    have "sf AND 0x3 \<le> 3" by (rule word_and_le1)
    with False have "sf AND 0x3 \<noteq> sf" by auto
    with False show ?thesis by simp
  qed
  have c: "SendFastPath t sf data =
        [ConnWrite ([push_bit 6 (sf AND 0x3)] @
                    WriteUInt16BE (of_nat (length data + 3) OR 0x8000) @ data)]"
    by (simp add: SendFastPath_def SendFastPath_buff_def FASTPATH_ACTION_FASTPATH_def)
  have d: "unat ((of_nat (length data + 3) :: uint16) OR 0x8000) = length data + 3 + 0x8000"
    using len by (rule unat_len3)
  have e: "recvExtendedFastPathHeader t [nb] (uint (lb :: byte)) err =
        Inr (t, [], Some (StartReadBytes
               (push_bit 8 (uint lb AND 0x7F) + uint nb - 3) CB_recvFastPath))"
    by (rule recvExtendedFastPathHeader_ok) (simp only: and_not_0x80)
  from a b c d e show ?thesis by blast
qed

text \<open>Witness for C5: flags 2 and a payload of two bytes, alone on the stream.\<close>

theorem C5_fastpath_roundtrip_witness:
  "reader \<lparr>secFlag = 0, fastPathListener = True\<rparr> start
     (SendFastPath_buff 2 [0xAA, 0xBB]) None =
   (\<lparr>secFlag = 2, fastPathListener = True\<rparr>, [RecvFastPath 2 [0xAA, 0xBB]],
    Waiting (StartReadBytes 2 CB_recvHeader), [])"
  using C5_fastpath_roundtrip [of "[0xAA, 0xBB]" "\<lparr>secFlag = 0, fastPathListener = True\<rparr>"
      2 "[]" None 0 0 None]
  by (simp add: reader_waits)

text \<open>
  Counterexample to C5 as stated: a payload of \<open>0x7FFD\<close> bytes is shorter than \<open>0x7FFF\<close>,
  but its length plus 3 is \<open>0x8000\<close>, the frame carries the length bytes \<open>0x80, 0x00\<close>, the
  reader computes the packet size 0 and asks for \<open>-3\<close> bytes: nothing reaches the listener.
\<close>

theorem C5_fastpath_roundtrip_counterexample:
  "length (replicate 0x7FFD (0 :: byte)) < 0x7FFF
   \<and> reader \<lparr>secFlag = 0, fastPathListener = True\<rparr> start
        (SendFastPath_buff 0 (replicate 0x7FFD 0)) None =
      (\<lparr>secFlag = 0, fastPathListener = True\<rparr>, [], Panicked NegativeLength,
       replicate 0x7FFD 0)"
  by (simp add: SendFastPath_buff_def WriteUInt16BE_def start_def reader.simps(2)
      recvHeader_def recvExtendedFastPathHeader_def ReadUInt8_def FASTPATH_ACTION_X224_def
      FASTPATH_ACTION_FASTPATH_def Let_def)

text \<open>
  Claim C6, as amended. For every payload of at most 65531 bytes (so that the length plus
  4 fits sixteen bits), reading a frame built by \<^verbatim>\<open>Write\<close> emits one \<^verbatim>\<open>data\<close> event carrying
  the payload, and the loop goes on with the bytes that follow. The frame is the tag 3, a
  zero byte, the big-endian 16-bit length field and the payload; the length field equals
  the payload length plus 4, and the reader asks for that length minus 4 bytes of body.
\<close>

theorem C6_slowpath_roundtrip:
  assumes "length data \<le> 65531"
  shows "reader t start (Write_buff data @ follow) fail =
           (case reader t start follow fail of
              (t', es, st, rest) \<Rightarrow> (t', Emit ''data'' [ArgBytes data] # es, st, rest))
    \<and> Write_tpkt t data =
        [ConnWrite ([0x3, 0] @ WriteUInt16BE (of_nat (length data + 4)) @ data)]
    \<and> unat (of_nat (length data + 4) :: uint16) = length data + 4
    \<and> recvExtendedHeader t (WriteUInt16BE (of_nat (length data + 4))) None =
        Inr (t, [], Some (StartReadBytes (int (length data + 4) - 4) CB_recvData))"
proof -
  from assms have lt: "length data < 65536" by simp
  have a: "reader t start (Write_buff data @ follow) fail =
           (case reader t start follow fail of
              (t', es, st, rest) \<Rightarrow> (t', Emit ''data'' [ArgBytes data] # es, st, rest))"
    using lt by (rule slow_roundtrip)
  have b: "Write_tpkt t data =
        [ConnWrite ([0x3, 0] @ WriteUInt16BE (of_nat (length data + 4)) @ data)]"
    by (simp add: Write_tpkt_def Write_buff_def FASTPATH_ACTION_X224_def)
  have c: "unat (of_nat (length data + 4) :: uint16) = length data + 4"
    using assms by (rule unat_len4)
  have d: "recvExtendedHeader t (WriteUInt16BE (of_nat (length data + 4))) None =
        Inr (t, [], Some (StartReadBytes (int (length data + 4) - 4) CB_recvData))"
    using uint_sub4 [OF lt]
    by (simp add: WriteUInt16BE_def recvExtendedHeader_ok Uint16BE_Write del: of_nat_add)
  from a b c d show ?thesis by blast
qed

text \<open>
  The round trip alone holds for every payload shorter than 65536 bytes: the two
  wrap-arounds of the 16-bit arithmetic cancel.
\<close>

lemma slowpath_roundtrip_up_to_65535:
  assumes "length data < 65536"
  shows "reader t start (Write_buff data) None =
           (t, [Emit ''data'' [ArgBytes data]], Waiting (StartReadBytes 2 CB_recvHeader), [])"
  using slow_roundtrip [OF assms, of t "[]" None] by (simp add: reader_waits)

text \<open>Witness for C6: a payload of three bytes, alone on the stream.\<close>

theorem C6_slowpath_roundtrip_witness:
  "reader \<lparr>secFlag = 0, fastPathListener = False\<rparr> start (Write_buff [1, 2, 3]) None =
     (\<lparr>secFlag = 0, fastPathListener = False\<rparr>, [Emit ''data'' [ArgBytes [1, 2, 3]]],
      Waiting (StartReadBytes 2 CB_recvHeader), [])
   \<and> Write_buff [1, 2, 3] = [3, 0, 0, 7, 1, 2, 3]"
  using C6_slowpath_roundtrip [of "[1, 2, 3]" "\<lparr>secFlag = 0, fastPathListener = False\<rparr>"
      "[]" None]
  by (simp add: reader_waits Write_buff_def WriteUInt16BE_def FASTPATH_ACTION_X224_def)

text \<open>
  Counterexample to C6 as stated. For a payload of 65532 bytes the length field wraps
  to 0, which is not the payload length plus 4. For a payload of 65536 bytes the length
  field is 4, the reader takes an empty body and emits an empty payload, and then reads
  the first two payload bytes as the next header.
\<close>

theorem C6_slowpath_roundtrip_counterexample:
  "Write_buff (replicate 65532 0) = [0x3, 0, 0, 0] @ replicate 65532 0
   \<and> unat (Uint16BE (Write_buff (replicate 65532 0) ! 2) (Write_buff (replicate 65532 0) ! 3))
       \<noteq> length (replicate 65532 (0 :: byte)) + 4
   \<and> reader \<lparr>secFlag = 0, fastPathListener = False\<rparr> start
        (Write_buff (replicate 65536 0)) None =
      (\<lparr>secFlag = 0, fastPathListener = False\<rparr>, [Emit ''data'' [ArgBytes []]], Idle,
       replicate 65534 0)"
  by (simp add: Write_buff_def WriteUInt16BE_def FASTPATH_ACTION_X224_def start_def
     reader.simps(2) recvHeader_def recvExtendedHeader_def recvData_tpkt_def ReadUint16BE_def
     Uint16BE_def Let_def replicate_2)

text \<open>
  Claim C7. For every fast-path frame whose second header byte has bit \<open>0x80\<close> clear, the
  header callback arms no read, and the loop stops after the two header bytes: nothing is
  emitted, no read is pending, and the bytes that follow stay unread.
\<close>

theorem C7_short_fastpath_arms_no_read:
  assumes "version \<noteq> FASTPATH_ACTION_X224" and "l AND 0x80 = 0"
  shows "recvHeader t [version, l] None =
           Inr (t\<lparr>secFlag := drop_bit 6 version AND 0x3\<rparr>, [], None)
    \<and> reader t start (version # l # follow) fail =
           (t\<lparr>secFlag := drop_bit 6 version AND 0x3\<rparr>, [], Idle, follow)"
  using recvHeader_short [OF assms] reader_short_fast [OF assms] by simp

text \<open>Witness for C7: a fast-path header announcing five bytes, followed by three.\<close>

theorem C7_short_fastpath_arms_no_read_witness:
  "recvHeader \<lparr>secFlag = 0, fastPathListener = True\<rparr> [0x40, 5] None =
     Inr (\<lparr>secFlag = 1, fastPathListener = True\<rparr>, [], None)
   \<and> reader \<lparr>secFlag = 0, fastPathListener = True\<rparr> start [0x40, 5, 7, 8, 9] None =
     (\<lparr>secFlag = 1, fastPathListener = True\<rparr>, [], Idle, [7, 8, 9])"
  using C7_short_fastpath_arms_no_read [of "0x40" 5 "\<lparr>secFlag = 0, fastPathListener = True\<rparr>"
      "[7, 8, 9]" None]
  by (simp add: FASTPATH_ACTION_X224_def)

section \<open>Properties of the licence exchange\<close>

lemma readSecurityHeader_4:
  "readSecurityHeader (f0 # f1 # h0 # h1 # r) =
     (\<lparr>securityFlag = Uint16LE f0 f1, securityFlagHi = Uint16LE h0 h1\<rparr>, r)"
  by (simp add: readSecurityHeader_def ReadUint16LE_def)

lemma licence_flag: "(f AND LICENSE_PKT \<le> 0) = (f AND LICENSE_PKT = 0)"
  by (simp add: word_le_nat_alt unat_eq_0)

lemma recvLicenceInfo_retry:
  assumes "licence_frame rlp s p" and "retry_packet p"
  shows "recvLicenceInfo rlp c s = Inr [TransportOnce ''global'' Sec_recvLicenceInfo]"
  using assms
  by (cases "readSecurityHeader s")
     (auto simp add: recvLicenceInfo_def licence_frame_def licence_flag retry_packet_def
        retry_label_def after_def sendClientNewLicenseRequest_def
        sendClientChallengeResponse_def split: LicensePacket.splits)

lemma emit_global_retry:
  assumes "licence_frame rlp s p" and "retry_packet p"
  shows "emit_global rlp c armed s = Inr (armed, [TransportOnce ''global'' Sec_recvLicenceInfo])"
  using recvLicenceInfo_retry [where rlp = rlp and s = s and p = p and c = c] assms
  by (simp add: emit_global_def armed_def)

lemma recvLicenceInfo_new:
  assumes "licence_frame rlp s NEW_LICENSE" and "clientData c = ClientCoreData v # cd"
  shows "recvLicenceInfo rlp c s =
     Inr [Emit ''success'' [], TransportOn ''global'' Sec_recvData,
          Emit ''connect'' [ArgCoreData v, ArgUint16 (userId c), ArgUint16 (channelId c)]]"
  using assms
  by (cases "readSecurityHeader s")
     (simp add: recvLicenceInfo_def licence_frame_def licence_flag connect_label_def after_def)

lemma emit_global_new:
  assumes "licence_frame rlp s NEW_LICENSE" and "clientData c = ClientCoreData v # cd"
  shows "emit_global rlp c armed s =
     Inr ([(Sec_recvData, False)],
          [Emit ''success'' [], TransportOn ''global'' Sec_recvData,
           Emit ''connect'' [ArgCoreData v, ArgUint16 (userId c), ArgUint16 (channelId c)]])"
  using recvLicenceInfo_new [where rlp = rlp and s = s and c = c and v = v and cd = cd] assms
  by (simp add: emit_global_def armed_def)

lemma recvLicenceInfo_other:
  assumes "licence_frame rlp s (OtherLicense b)"
  shows "recvLicenceInfo rlp c s = Inr [Emit ''error'' [ArgError ''Not a valid license packet'']]"
  using assms
  by (cases "readSecurityHeader s")
     (simp add: recvLicenceInfo_def licence_frame_def licence_flag)

lemma emit_global_other:
  assumes "licence_frame rlp s (OtherLicense b)"
  shows "emit_global rlp c armed s =
     Inr ([], [Emit ''error'' [ArgError ''Not a valid license packet'']])"
  using recvLicenceInfo_other [where rlp = rlp and s = s and b = b and c = c] assms
  by (simp add: emit_global_def armed_def)

lemma feed_retries:
  assumes "\<forall>s \<in> set ss. \<exists>p. licence_frame rlp s p \<and> retry_packet p"
  shows "feed rlp c armed ss =
     Inr (armed, replicate (length ss) (TransportOnce ''global'' Sec_recvLicenceInfo))"
  using assms
proof (induction ss)
  case Nil
  then show ?case by simp
next
  case (Cons s ss)
  then obtain p where p: "licence_frame rlp s p" "retry_packet p" by auto
  have "emit_global rlp c armed s = Inr (armed, [TransportOnce ''global'' Sec_recvLicenceInfo])"
    using p by (rule emit_global_retry)
  with Cons show ?case by simp
qed

lemma feed_append:
  assumes "feed rlp c ls ss = Inr (ls', es)"
  shows "feed rlp c ls (ss @ ts) =
     (case feed rlp c ls' ts of Inl p \<Rightarrow> Inl p | Inr (ls'', es') \<Rightarrow> Inr (ls'', es @ es'))"
  using assms
  by (induction ss arbitrary: ls es) (auto split: sum.splits prod.splits)

lemma feed_no_listener: "feed rlp c [] ts = Inr ([], [])"
  by (induction ts) (simp_all add: emit_global_def)

text \<open>
  The second half of claim C2 holds on the code. After any number of frames that make the
  handler retry, a licence frame with an unrecognized tag produces exactly one \<^verbatim>\<open>error\<close>
  event and leaves no listener on \<^verbatim>\<open>global\<close>: whatever is delivered afterwards reaches no
  handler.
\<close>

lemma unrecognized_tag_ends_exchange:
  assumes "\<forall>s \<in> set ss. \<exists>p. licence_frame rlp s p \<and> retry_packet p"
    and "licence_frame rlp bad (OtherLicense b)"
  shows "feed rlp c armed (ss @ bad # ts) =
     Inr ([], replicate (length ss) (TransportOnce ''global'' Sec_recvLicenceInfo) @
              [Emit ''error'' [ArgError ''Not a valid license packet'']])"
  unfolding feed_append [OF feed_retries [OF assms(1)]]
  by (simp add: emit_global_other [OF assms(2)] feed_no_listener)

text \<open>
  Claim C2 fails on the code in its first half. Delivering licence frames for a platform
  challenge, a licence request and a new licence, in this order, to the armed handler
  re-arms the listener twice, emits \<^verbatim>\<open>success\<close>, installs the data listener and emits one
  \<^verbatim>\<open>connect\<close>; there is no \<^verbatim>\<open>error\<close> event, and nothing is written on the transport: the two
  senders are called and write nothing.
\<close>

theorem C2_licence_sequence_writes_nothing:
  assumes "licence_frame rlp s1 PLATFORM_CHALLENGE"
    and "licence_frame rlp s2 LICENSE_REQUEST"
    and "licence_frame rlp s3 NEW_LICENSE"
    and "clientData c = ClientCoreData v # cd"
  shows "feed rlp c armed [s1, s2, s3] =
     Inr ([(Sec_recvData, False)],
          [TransportOnce ''global'' Sec_recvLicenceInfo,
           TransportOnce ''global'' Sec_recvLicenceInfo,
           Emit ''success'' [], TransportOn ''global'' Sec_recvData,
           Emit ''connect'' [ArgCoreData v, ArgUint16 (userId c), ArgUint16 (channelId c)]])
   \<and> (case feed rlp c armed [s1, s2, s3] of
         Inl p \<Rightarrow> False
       | Inr (ls, es) \<Rightarrow>
           length (filter is_write es) = 0 \<and>
           length (filter (is_event ''connect'') es) = 1 \<and>
           length (filter (is_event ''error'') es) = 0)"
proof -
  have e1: "emit_global rlp c armed s1 =
              Inr (armed, [TransportOnce ''global'' Sec_recvLicenceInfo])"
    using assms(1) by (rule emit_global_retry) (simp add: retry_packet_def)
  have e2: "emit_global rlp c armed s2 =
              Inr (armed, [TransportOnce ''global'' Sec_recvLicenceInfo])"
    using assms(2) by (rule emit_global_retry) (simp add: retry_packet_def)
  have e3: "emit_global rlp c armed s3 = Inr ([(Sec_recvData, False)],
          [Emit ''success'' [], TransportOn ''global'' Sec_recvData,
           Emit ''connect'' [ArgCoreData v, ArgUint16 (userId c), ArgUint16 (channelId c)]])"
    using assms(3,4) by (rule emit_global_new)
  have f: "feed rlp c armed [s1, s2, s3] =
     Inr ([(Sec_recvData, False)],
          [TransportOnce ''global'' Sec_recvLicenceInfo,
           TransportOnce ''global'' Sec_recvLicenceInfo,
           Emit ''success'' [], TransportOn ''global'' Sec_recvData,
           Emit ''connect'' [ArgCoreData v, ArgUint16 (userId c), ArgUint16 (channelId c)]])"
    by (simp add: e1 e2 e3)
  show ?thesis unfolding f by simp
qed

text \<open>
  Witness for C2: three frames with the security flags \<open>0x0080\<close> and the tags 2, 1 and 3,
  for a client whose first client data entry is the core data.
\<close>

theorem C2_licence_sequence_writes_nothing_witness:
  "feed tag_decoder \<lparr>clientData = [ClientCoreData 0x00080004], userId = 1002, channelId = 1003\<rparr>
     armed [[0x80, 0, 0, 0, 2], [0x80, 0, 0, 0, 1], [0x80, 0, 0, 0, 3]] =
     Inr ([(Sec_recvData, False)],
          [TransportOnce ''global'' Sec_recvLicenceInfo,
           TransportOnce ''global'' Sec_recvLicenceInfo,
           Emit ''success'' [], TransportOn ''global'' Sec_recvData,
           Emit ''connect'' [ArgCoreData 0x00080004, ArgUint16 1002, ArgUint16 1003]])"
  using C2_licence_sequence_writes_nothing [of tag_decoder "[0x80, 0, 0, 0, 2]"
      "[0x80, 0, 0, 0, 1]" "[0x80, 0, 0, 0, 3]"
      "\<lparr>clientData = [ClientCoreData 0x00080004], userId = 1002, channelId = 1003\<rparr>"
      "0x00080004" "[]"]
  by (simp add: licence_frame_def readSecurityHeader_4 tag_decoder_def Uint16LE_def
      LICENSE_PKT_def)

end
